theory Spec2Isabelle
  imports Main
begin

section \<open>The CarbonTracker contract\<close>

text \<open>
  A shallow embedding of the Solidity contract \<^verbatim>\<open>CarbonTracker\<close>. A transaction is a
  function from the contract storage to either an error (the transaction reverts and the
  storage is left as it was) or the new storage.

  Conventions of the embedding:
  \<^item> \<^verbatim>\<open>uint256\<close> and \<^verbatim>\<open>address\<close> are natural numbers; \<^verbatim>\<open>address(0)\<close> is \<open>0\<close>. The
    arithmetic of the contract goes through SafeMath, which reverts instead of wrapping;
    the bound \<open>2 ^ 256\<close> is written out in \<open>safe_add\<close> and \<open>safe_mul\<close>.
  \<^item> a Solidity \<^verbatim>\<open>mapping\<close> is a total function whose default value is zero.
  \<^item> a storage array is a list; \<^verbatim>\<open>push\<close> appends; \<^verbatim>\<open>delete a[i]\<close> writes the zero
    value into slot \<open>i\<close> and leaves the length of the array as it is.
  \<^item> a source name with leading underscores loses them: \<^verbatim>\<open>_trackTokens\<close> is
    \<open>trackTokens\<close>, \<^verbatim>\<open>_trackerData\<close> is \<open>trackerData\<close>. The three layers of the auditor
    check, \<^verbatim>\<open>__isAuditor\<close>, \<^verbatim>\<open>_isAuditor\<close> and the modifier \<^verbatim>\<open>isAuditor\<close>, are
    \<open>isAuditor_check\<close>, \<open>isAuditor_require\<close> and \<open>isAuditor_modifier\<close>.
  \<^item> events are not part of the storage and are left out.
  \<^item> the OpenZeppelin libraries the contract imports (SafeMath, Counters, ERC721) are not
    among the sources; \<open>safe_add\<close>, \<open>safe_sub\<close>, \<open>safe_mul\<close>, \<open>safe_div\<close>,
    \<open>increment\<close>, \<open>ownerOf\<close> and \<open>mint\<close> give them their documented behaviour.
\<close>

subsection \<open>Values, errors and SafeMath\<close>

type_synonym address = nat
type_synonym uint256 = nat

definition MAX_UINT256 :: nat where
  "MAX_UINT256 = 2 ^ 256 - 1"

datatype error =
    AlreadyAudited                \<comment> \<open>\<^verbatim>\<open>notAudited\<close>\<close>
  | NotAudited                    \<comment> \<open>\<^verbatim>\<open>_isAudited\<close>\<close>
  | NotAuditor                    \<comment> \<open>\<^verbatim>\<open>_isAuditor\<close>\<close>
  | NotOwner                      \<comment> \<open>\<^verbatim>\<open>_isOwner\<close>\<close>
  | NotAuditorOrOwner             \<comment> \<open>\<^verbatim>\<open>_isAuditorOrOwner\<close>\<close>
  | TrackerDoesNotExist           \<comment> \<open>\<^verbatim>\<open>_trackerExists\<close>\<close>
  | NotIndustry                   \<comment> \<open>\<^verbatim>\<open>trackeeIsIndustry\<close>\<close>
  | LengthMismatch
  | InsufficientAvailable
  | ProductNotOwnedByTracker
  | NotProductAuditor
  | InsufficientProductBalance
  | SelfReferenceNotAllowed
  | AdditionOverflow              \<comment> \<open>SafeMath \<^verbatim>\<open>add\<close>\<close>
  | SubtractionOverflow           \<comment> \<open>SafeMath \<^verbatim>\<open>sub\<close>\<close>
  | MultiplicationOverflow        \<comment> \<open>SafeMath \<^verbatim>\<open>mul\<close>\<close>
  | DivisionByZero                \<comment> \<open>SafeMath \<^verbatim>\<open>div\<close>\<close>
  | ArithmeticPanic               \<comment> \<open>checked \<^verbatim>\<open>-\<close> of Solidity 0.8\<close>
  | IndexOutOfBounds              \<comment> \<open>array access out of range\<close>
  | NonexistentToken              \<comment> \<open>ERC721 \<^verbatim>\<open>ownerOf\<close>\<close>
  | MintToZeroAddress             \<comment> \<open>ERC721 \<^verbatim>\<open>_mint\<close>\<close>
  | TokenAlreadyMinted            \<comment> \<open>ERC721 \<^verbatim>\<open>_mint\<close>\<close>
  | OutOfGas                      \<comment> \<open>the call depth of a view ran out\<close>

type_synonym 'a result = "error + 'a"

definition and_then :: "'a result \<Rightarrow> ('a \<Rightarrow> 'b result) \<Rightarrow> 'b result" where
  "and_then m f = (case m of Inl e \<Rightarrow> Inl e | Inr x \<Rightarrow> f x)"

definition safe_add :: "uint256 \<Rightarrow> uint256 \<Rightarrow> uint256 result" where
  "safe_add a b = (if a + b \<le> MAX_UINT256 then Inr (a + b) else Inl AdditionOverflow)"

definition safe_sub :: "uint256 \<Rightarrow> uint256 \<Rightarrow> uint256 result" where
  "safe_sub a b = (if b \<le> a then Inr (a - b) else Inl SubtractionOverflow)"

definition safe_mul :: "uint256 \<Rightarrow> uint256 \<Rightarrow> uint256 result" where
  "safe_mul a b = (if a * b \<le> MAX_UINT256 then Inr (a * b) else Inl MultiplicationOverflow)"

definition safe_div :: "uint256 \<Rightarrow> uint256 \<Rightarrow> uint256 result" where
  "safe_div a b = (if 0 < b then Inr (a div b) else Inl DivisionByZero)"

text \<open>\<^verbatim>\<open>Counters.increment\<close> adds one in an unchecked block.\<close>

definition increment :: "uint256 \<Rightarrow> uint256" where
  "increment v = (v + 1) mod 2 ^ 256"

subsection \<open>Storage\<close>

record CarbonTrackerDetails =
  td_trackerId :: uint256
  td_trackee :: address
  td_auditor :: address
  td_totalProductAmounts :: uint256
  td_fromDate :: uint256
  td_thruDate :: uint256
  td_createdBy :: address
  td_dateCreated :: uint256
  td_dateUpdated :: uint256
  td_metadata :: string
  td_description :: string

record ProductsTracked =
  pt_productIds :: "uint256 list"
  pt_productIndex :: "uint256 \<Rightarrow> uint256"
  pt_amount :: "uint256 \<Rightarrow> uint256"

record CarbonTrackerMappings =
  tm_tokenIds :: "uint256 list"
  tm_idIndex :: "uint256 \<Rightarrow> uint256"
  tm_amount :: "uint256 \<Rightarrow> uint256"
  tm_productIds :: "uint256 list"
  tm_productIdIndex :: "uint256 \<Rightarrow> uint256"
  tm_trackerIds :: "uint256 list"
  tm_trackerIndex :: "uint256 \<Rightarrow> uint256"
  tm_productsTracked :: "uint256 \<Rightarrow> ProductsTracked"

record ProductDetails =
  pd_trackerId :: uint256
  pd_auditor :: address
  pd_amount :: uint256
  pd_available :: uint256
  pd_name :: string
  pd_unit :: string
  pd_unitAmount :: string

text \<open>
  The storage of the contract. \<open>owners\<close> is the owner table of the inherited ERC721
  token (zero for a token that was never minted).
\<close>

record contract =
  netAddress :: address
  decimalsEf :: uint256
  trackerData :: "uint256 \<Rightarrow> CarbonTrackerDetails"
  trackerMappings :: "uint256 \<Rightarrow> CarbonTrackerMappings"
  productData :: "uint256 \<Rightarrow> ProductDetails"
  numOfUniqueTrackers :: uint256
  numOfProducts :: uint256
  lockedAmount :: "uint256 \<Rightarrow> uint256"
  productBalance :: "uint256 \<Rightarrow> address \<Rightarrow> uint256"
  isAuditorApproved :: "address \<Rightarrow> address \<Rightarrow> bool"
  approvedAuditorsOnly :: "address \<Rightarrow> bool"
  owners :: "uint256 \<Rightarrow> address"

text \<open>
  The emissions token network \<^verbatim>\<open>NetEmissionsTokenNetwork\<close> is another contract; the
  views the tracker calls on it are parameters of the model.
\<close>

record net =
  net_isAuditor :: "address \<Rightarrow> bool"
  net_isIndustry :: "address \<Rightarrow> bool"
  net_getAvailableAndRetired :: "address \<Rightarrow> uint256 \<Rightarrow> uint256 \<times> uint256"
  net_getTokenTypeId :: "uint256 \<Rightarrow> uint256"

text \<open>The call context: \<^verbatim>\<open>msg.sender\<close>, \<^verbatim>\<open>block.timestamp\<close> and \<^verbatim>\<open>address(this)\<close>.\<close>

record call =
  msg_sender :: address
  block_timestamp :: uint256
  this_address :: address

definition empty_details :: CarbonTrackerDetails where
  "empty_details = \<lparr>td_trackerId = 0, td_trackee = 0, td_auditor = 0,
     td_totalProductAmounts = 0, td_fromDate = 0, td_thruDate = 0, td_createdBy = 0,
     td_dateCreated = 0, td_dateUpdated = 0, td_metadata = [], td_description = []\<rparr>"

definition empty_tracked :: ProductsTracked where
  "empty_tracked = \<lparr>pt_productIds = [], pt_productIndex = (\<lambda>_. 0), pt_amount = (\<lambda>_. 0)\<rparr>"

definition empty_mappings :: CarbonTrackerMappings where
  "empty_mappings = \<lparr>tm_tokenIds = [], tm_idIndex = (\<lambda>_. 0), tm_amount = (\<lambda>_. 0),
     tm_productIds = [], tm_productIdIndex = (\<lambda>_. 0), tm_trackerIds = [],
     tm_trackerIndex = (\<lambda>_. 0), tm_productsTracked = (\<lambda>_. empty_tracked)\<rparr>"

definition empty_product :: ProductDetails where
  "empty_product = \<lparr>pd_trackerId = 0, pd_auditor = 0, pd_amount = 0, pd_available = 0,
     pd_name = [], pd_unit = [], pd_unitAmount = []\<rparr>"

text \<open>The storage after the constructor has run with the network address \<open>n\<close>.\<close>

definition constructor :: "address \<Rightarrow> contract" where
  "constructor n = \<lparr>netAddress = n, decimalsEf = 1000000,
     trackerData = (\<lambda>_. empty_details), trackerMappings = (\<lambda>_. empty_mappings),
     productData = (\<lambda>_. empty_product), numOfUniqueTrackers = 0, numOfProducts = 0,
     lockedAmount = (\<lambda>_. 0), productBalance = (\<lambda>_ _. 0),
     isAuditorApproved = (\<lambda>_ _. False), approvedAuditorsOnly = (\<lambda>_. False),
     owners = (\<lambda>_. 0)\<rparr>"

subsection \<open>Modifiers and checks\<close>

definition notAudited :: "contract \<Rightarrow> uint256 \<Rightarrow> unit result" where
  "notAudited s trackerId =
     (if td_auditor (trackerData s trackerId) = 0 then Inr () else Inl AlreadyAudited)"

definition isAuditor_check :: "net \<Rightarrow> call \<Rightarrow> contract \<Rightarrow> address \<Rightarrow> bool" where
  "isAuditor_check n c s trackee \<longleftrightarrow>
     (net_isAuditor n (msg_sender c) \<or> msg_sender c = netAddress s) \<and>
     ((approvedAuditorsOnly s trackee \<and> isAuditorApproved s (msg_sender c) trackee) \<or>
      \<not> approvedAuditorsOnly s trackee)"

definition isAuditor_require :: "net \<Rightarrow> call \<Rightarrow> contract \<Rightarrow> address \<Rightarrow> unit result" where
  "isAuditor_require n c s trackee =
     (if isAuditor_check n c s trackee then Inr () else Inl NotAuditor)"

definition isAuditor_modifier :: "net \<Rightarrow> call \<Rightarrow> contract \<Rightarrow> uint256 \<Rightarrow> unit result" where
  "isAuditor_modifier n c s trackerId =
     isAuditor_require n c s (td_trackee (trackerData s trackerId))"

definition isAudited :: "contract \<Rightarrow> uint256 \<Rightarrow> unit result" where
  "isAudited s trackerId =
     (if td_auditor (trackerData s trackerId) \<noteq> 0 then Inr () else Inl NotAudited)"

text \<open>ERC721 \<^verbatim>\<open>ownerOf\<close> reverts on a token without an owner.\<close>

definition ownerOf :: "contract \<Rightarrow> uint256 \<Rightarrow> address result" where
  "ownerOf s tokenId = (if owners s tokenId = 0 then Inl NonexistentToken else Inr (owners s tokenId))"

text \<open>ERC721 \<^verbatim>\<open>_mint\<close>, as far as the owner table goes.\<close>

definition mint :: "contract \<Rightarrow> address \<Rightarrow> uint256 \<Rightarrow> contract result" where
  "mint s to tokenId =
     (if to = 0 then Inl MintToZeroAddress
      else if owners s tokenId \<noteq> 0 then Inl TokenAlreadyMinted
      else Inr (s\<lparr>owners := (owners s)(tokenId := to)\<rparr>))"

text \<open>
  \<^verbatim>\<open>_isAuditorOrOwner\<close> hands its address argument to \<^verbatim>\<open>__isAuditor\<close>, whose parameter
  is the trackee; \<^verbatim>\<open>||\<close> evaluates \<^verbatim>\<open>ownerOf\<close> only when the first disjunct is false.
\<close>

definition isAuditorOrOwner :: "net \<Rightarrow> call \<Rightarrow> contract \<Rightarrow> uint256 \<Rightarrow> address \<Rightarrow> unit result" where
  "isAuditorOrOwner n c s trackerId addr =
     (if isAuditor_check n c s addr then Inr ()
      else and_then (ownerOf s trackerId)
             (\<lambda>owner. if owner = addr then Inr () else Inl NotAuditorOrOwner))"

definition trackerExists :: "contract \<Rightarrow> uint256 \<Rightarrow> unit result" where
  "trackerExists s trackeID =
     (if numOfUniqueTrackers s \<ge> trackeID then Inr () else Inl TrackerDoesNotExist)"

subsection \<open>Creating and updating trackers\<close>

text \<open>\<^verbatim>\<open>_track\<close>: the new tracker id, and the storage with the new record.\<close>

definition track_new :: "call \<Rightarrow> contract \<Rightarrow> address \<Rightarrow> uint256 \<times> contract" where
  "track_new c s trackee =
     (let trackerId = increment (numOfUniqueTrackers s) in
      (trackerId,
       s\<lparr>numOfUniqueTrackers := trackerId,
         trackerData := (trackerData s)(trackerId := (trackerData s trackerId)
           \<lparr>td_trackerId := trackerId, td_createdBy := msg_sender c,
            td_trackee := trackee, td_dateCreated := block_timestamp c\<rparr>)\<rparr>))"

definition addTokenAmounts ::
  "CarbonTrackerMappings \<Rightarrow> uint256 \<Rightarrow> uint256 \<Rightarrow> uint256 \<Rightarrow> uint256
     \<Rightarrow> CarbonTrackerMappings result" where
  "addTokenAmounts tokenData tokenId amountAdd index tokenTypeId =
     and_then
       (if tokenTypeId = 4 then
          and_then (safe_add (tm_amount tokenData tokenId) amountAdd)
            (\<lambda>v. Inr (tokenData\<lparr>tm_amount := (tm_amount tokenData)(tokenId := v)\<rparr>))
        else if tokenTypeId = 2 then
          and_then (safe_sub (tm_amount tokenData tokenId) amountAdd)
            (\<lambda>v. Inr (tokenData\<lparr>tm_amount := (tm_amount tokenData)(tokenId := v)\<rparr>))
        else Inr tokenData)
       (\<lambda>td. if tm_amount td tokenId > 0 \<and> index = 0 then
                Inr (td\<lparr>tm_tokenIds := tm_tokenIds td @ [tokenId],
                        tm_idIndex := (tm_idIndex td)(tokenId := length (tm_tokenIds td) + 1)\<rparr>)
              else Inr td)"

text \<open>
  The loop of \<^verbatim>\<open>_trackTokens\<close> over the pairs \<^verbatim>\<open>(tokenIds[i], tokenAmounts[i])\<close>; it runs
  after the two arrays were checked to have the same length. \<open>slot\<close> is the key of
  \<^verbatim>\<open>_trackerMappings\<close> the loop writes to.
\<close>

fun trackTokens_loop ::
  "net \<Rightarrow> call \<Rightarrow> uint256 \<Rightarrow> contract \<Rightarrow> (uint256 \<times> uint256) list \<Rightarrow> contract result" where
  "trackTokens_loop n c slot s [] = Inr s"
| "trackTokens_loop n c slot s ((tokenId, tokenAmount) # rest) =
     (let avail = fst (net_getAvailableAndRetired n (this_address c) tokenId) in
      and_then
        (if msg_sender c = netAddress s then Inr ()
         else and_then (safe_sub avail (lockedAmount s tokenId))
                (\<lambda>free. if free \<ge> tokenAmount then Inr () else Inl InsufficientAvailable))
        (\<lambda>_. and_then (safe_add (lockedAmount s tokenId) tokenAmount)
        (\<lambda>locked.
           let s1 = s\<lparr>lockedAmount := (lockedAmount s)(tokenId := locked)\<rparr>;
               index = tm_idIndex (trackerMappings s1 slot) tokenId;
               tokenTypeId = net_getTokenTypeId n tokenId
           in and_then
                (addTokenAmounts (trackerMappings s1 slot) tokenId tokenAmount index tokenTypeId)
                (\<lambda>tm. trackTokens_loop n c slot
                         (s1\<lparr>trackerMappings := (trackerMappings s1)(slot := tm)\<rparr>) rest))))"

text \<open>
  \<^verbatim>\<open>_trackTokens(trackerData, tokenIds, tokenAmounts)\<close>; \<open>key\<close> is the key of
  \<^verbatim>\<open>_trackerData\<close> the storage pointer \<^verbatim>\<open>trackerData\<close> refers to.
\<close>

definition trackTokens ::
  "net \<Rightarrow> call \<Rightarrow> contract \<Rightarrow> uint256 \<Rightarrow> uint256 list \<Rightarrow> uint256 list \<Rightarrow> contract result" where
  "trackTokens n c s key tokenIds tokenAmounts =
     (let td = trackerData s key in
      if \<not> net_isIndustry n (td_trackee (trackerData s (td_trackerId td))) then Inl NotIndustry
      else and_then (isAuditor_require n c s (td_trackee td))
        (\<lambda>_. if length tokenAmounts \<noteq> length tokenIds then Inl LengthMismatch
              else trackTokens_loop n c (td_trackerId td) s (zip tokenIds tokenAmounts)))"

text \<open>The four optional fields \<^verbatim>\<open>track\<close> and \<^verbatim>\<open>trackUpdate\<close> write when they are set.\<close>

definition set_fields ::
  "CarbonTrackerDetails \<Rightarrow> uint256 \<Rightarrow> uint256 \<Rightarrow> string \<Rightarrow> string \<Rightarrow> CarbonTrackerDetails" where
  "set_fields td fromDate thruDate description metadata =
     (let td1 = (if fromDate > 0 then td\<lparr>td_fromDate := fromDate\<rparr> else td);
          td2 = (if thruDate > 0 then td1\<lparr>td_thruDate := thruDate\<rparr> else td1);
          td3 = (if length description > 0 then td2\<lparr>td_description := description\<rparr> else td2)
      in if length metadata > 0 then td3\<lparr>td_metadata := metadata\<rparr> else td3)"

definition track ::
  "net \<Rightarrow> call \<Rightarrow> contract \<Rightarrow> address \<Rightarrow> address \<Rightarrow> uint256 list \<Rightarrow> uint256 list
     \<Rightarrow> uint256 \<Rightarrow> uint256 \<Rightarrow> string \<Rightarrow> string \<Rightarrow> contract result" where
  "track n c s issuedTo trackee tokenIds tokenAmounts fromDate thruDate description metadata =
     (let (trackerId, s1) = track_new c s trackee in
      and_then (mint s1 issuedTo (td_trackerId (trackerData s1 trackerId)))
        (\<lambda>s2.
           let s3 = s2\<lparr>trackerData := (trackerData s2)(trackerId :=
                      set_fields (trackerData s2 trackerId) fromDate thruDate description metadata)\<rparr>
           in if length tokenIds > 0 then trackTokens n c s3 trackerId tokenIds tokenAmounts
              else Inr s3))"

definition trackUpdate ::
  "net \<Rightarrow> call \<Rightarrow> contract \<Rightarrow> uint256 \<Rightarrow> uint256 list \<Rightarrow> uint256 list
     \<Rightarrow> uint256 \<Rightarrow> uint256 \<Rightarrow> string \<Rightarrow> string \<Rightarrow> contract result" where
  "trackUpdate n c s trackerId tokenIds tokenAmounts fromDate thruDate description metadata =
     and_then (notAudited s trackerId)
       (\<lambda>_. and_then (trackerExists s trackerId)
       (\<lambda>_. let s1 = s\<lparr>trackerData := (trackerData s)(trackerId :=
                        set_fields ((trackerData s trackerId)\<lparr>td_dateUpdated := block_timestamp c\<rparr>)
                          fromDate thruDate description metadata)\<rparr>
             in trackTokens n c s1 trackerId tokenIds tokenAmounts))"

subsection \<open>Products\<close>

text \<open>
  One round of the loop of \<^verbatim>\<open>productsUpdate\<close>, on the entry
  \<^verbatim>\<open>(productIds[i], productAmounts[i], productNames[i], productUnits[i],
  productUnitAmounts[i])\<close>. For an existing product the source subtracts
  \<^verbatim>\<open>productAmounts[i]\<close> from \<^verbatim>\<open>totalProductAmounts\<close>, then checks the product's auditor.
\<close>

type_synonym product_entry = "uint256 \<times> uint256 \<times> string \<times> string \<times> string"

definition set_total :: "contract \<Rightarrow> uint256 \<Rightarrow> uint256 \<Rightarrow> contract" where
  "set_total s trackerId v =
     s\<lparr>trackerData := (trackerData s)(trackerId :=
         (trackerData s trackerId)\<lparr>td_totalProductAmounts := v\<rparr>)\<rparr>"

definition productsUpdate_step ::
  "call \<Rightarrow> uint256 \<Rightarrow> contract \<Rightarrow> product_entry \<Rightarrow> contract result" where
  "productsUpdate_step c trackerId s entry =
     (case entry of (pid, productAmount, productName, productUnit, productUnitAmount) \<Rightarrow>
      and_then
        (if pid > 0 then
           if pd_trackerId (productData s pid) \<noteq> trackerId then Inl ProductNotOwnedByTracker
           else and_then
                  (safe_sub (td_totalProductAmounts (trackerData s trackerId)) productAmount)
                  (\<lambda>v. if pd_auditor (productData s pid) \<noteq> msg_sender c
                        then Inl NotProductAuditor
                        else Inr (pid, set_total s trackerId v))
         else
           let productId = increment (numOfProducts s);
               tm = trackerMappings s trackerId
           in Inr (productId,
                   s\<lparr>numOfProducts := productId,
                     productData := (productData s)(productId := (productData s productId)
                       \<lparr>pd_trackerId := trackerId, pd_auditor := msg_sender c\<rparr>),
                     trackerMappings := (trackerMappings s)(trackerId :=
                       tm\<lparr>tm_productIds := tm_productIds tm @ [productId]\<rparr>)\<rparr>))
        (\<lambda>(productId, s1).
           let s2 = s1\<lparr>productData := (productData s1)(productId := (productData s1 productId)
                         \<lparr>pd_name := productName, pd_unitAmount := productUnitAmount,
                          pd_unit := productUnit, pd_amount := productAmount,
                          pd_available := productAmount\<rparr>)\<rparr>
           in and_then
                (safe_add (td_totalProductAmounts (trackerData s2 trackerId)) productAmount)
                (\<lambda>v. Inr (set_total s2 trackerId v))))"

fun productsUpdate_loop ::
  "call \<Rightarrow> uint256 \<Rightarrow> contract \<Rightarrow> product_entry list \<Rightarrow> contract result" where
  "productsUpdate_loop c trackerId s [] = Inr s"
| "productsUpdate_loop c trackerId s (entry # rest) =
     and_then (productsUpdate_step c trackerId s entry)
       (\<lambda>s'. productsUpdate_loop c trackerId s' rest)"

definition productsUpdate ::
  "net \<Rightarrow> call \<Rightarrow> contract \<Rightarrow> uint256 \<Rightarrow> uint256 list \<Rightarrow> uint256 list
     \<Rightarrow> string list \<Rightarrow> string list \<Rightarrow> string list \<Rightarrow> contract result" where
  "productsUpdate n c s trackerId productIds productAmounts productNames productUnits
       productUnitAmounts =
     and_then (notAudited s trackerId)
       (\<lambda>_. and_then (trackerExists s trackerId)
       (\<lambda>_. and_then (isAuditor_modifier n c s trackerId)
       (\<lambda>_. if length productAmounts \<noteq> length productIds then Inl LengthMismatch
             else if length productNames \<noteq> length productIds then Inl LengthMismatch
             else if length productUnitAmounts \<noteq> length productIds then Inl LengthMismatch
             else if length productUnits \<noteq> length productIds then Inl LengthMismatch
             else productsUpdate_loop c trackerId s
                    (zip productIds (zip productAmounts
                      (zip productNames (zip productUnits productUnitAmounts)))))))"

subsection \<open>Transfer of products\<close>

definition set_available :: "contract \<Rightarrow> uint256 \<Rightarrow> uint256 \<Rightarrow> contract" where
  "set_available s productId v =
     s\<lparr>productData := (productData s)(productId :=
         (productData s productId)\<lparr>pd_available := v\<rparr>)\<rparr>"

definition set_balance :: "contract \<Rightarrow> uint256 \<Rightarrow> address \<Rightarrow> uint256 \<Rightarrow> contract" where
  "set_balance s productId addr v =
     s\<lparr>productBalance := (productBalance s)(productId :=
         (productBalance s productId)(addr := v))\<rparr>"

definition transferProduct ::
  "call \<Rightarrow> contract \<Rightarrow> uint256 \<Rightarrow> uint256 \<Rightarrow> address \<Rightarrow> contract result" where
  "transferProduct c s productId productAmount trackee =
     (let product = productData s productId in
      and_then (ownerOf s (pd_trackerId product))
        (\<lambda>owner. and_then
           (if msg_sender c = owner
            then and_then (isAudited s (pd_trackerId product)) (\<lambda>_. Inr (pd_available product))
            else Inr 0)
        (\<lambda>available. and_then (safe_add (productBalance s productId (msg_sender c)) available)
        (\<lambda>total.
           if \<not> total > productAmount then Inl InsufficientProductBalance
           else and_then
             (if available > 0 then
                if productAmount > available
                then Inr (productAmount - available, set_available s productId 0)
                else and_then (safe_sub (pd_available product) productAmount)
                       (\<lambda>v. Inr (0, set_available s productId v))
              else Inr (productAmount, s))
        (\<lambda>(residualAmount, s1). and_then
             (if residualAmount > 0
              then and_then (safe_sub (productBalance s1 productId (msg_sender c)) residualAmount)
                     (\<lambda>v. Inr (set_balance s1 productId (msg_sender c) v))
              else Inr s1)
        (\<lambda>s2. and_then (safe_add (productBalance s2 productId trackee) productAmount)
                 (\<lambda>v. Inr (set_balance s2 productId trackee v))))))))"

subsection \<open>Lineage: the indexed sets of tracked products\<close>

definition get_at :: "uint256 list \<Rightarrow> nat \<Rightarrow> uint256 result" where
  "get_at xs i = (if i < length xs then Inr (xs ! i) else Inl IndexOutOfBounds)"

definition set_at :: "uint256 list \<Rightarrow> nat \<Rightarrow> uint256 \<Rightarrow> uint256 list result" where
  "set_at xs i v = (if i < length xs then Inr (xs[i := v]) else Inl IndexOutOfBounds)"

text \<open>
  The removal the source writes for both indexed sets, for an element \<open>x\<close> whose stored
  index \<open>index\<close> is positive: when the array has more than one element the last element is
  copied over slot \<open>index - 1\<close> and takes \<open>index\<close>; the index of \<open>x\<close> is deleted; the last
  slot is deleted, which zeroes it. The result is the array and the index map.
\<close>

definition drop_indexed ::
  "uint256 list \<Rightarrow> (uint256 \<Rightarrow> uint256) \<Rightarrow> uint256 \<Rightarrow> uint256
     \<Rightarrow> (uint256 list \<times> (uint256 \<Rightarrow> uint256)) result" where
  "drop_indexed ids idx x index =
     and_then
       (if length ids > 1 then
          and_then (get_at ids (length ids - 1))
            (\<lambda>lastId. and_then (set_at ids (index - 1) lastId)
            (\<lambda>ids1. and_then (get_at ids1 (index - 1))
            (\<lambda>moved. Inr (ids1, idx(moved := index)))))
        else Inr (ids, idx))
       (\<lambda>(ids1, idx1).
          if length ids1 = 0 then Inl ArithmeticPanic
          else and_then (set_at ids1 (length ids1 - 1) 0)
                 (\<lambda>ids2. Inr (ids2, idx1(x := 0))))"

text \<open>
  The first half of \<^verbatim>\<open>_updateTrackedProducts\<close>: the amount and the product set of the
  record \<^verbatim>\<open>productsTracked[sourceTrackerId]\<close>.
\<close>

definition update_productsTracked ::
  "ProductsTracked \<Rightarrow> uint256 \<Rightarrow> uint256 \<Rightarrow> ProductsTracked result" where
  "update_productsTracked pt productId productAmount =
     and_then (safe_add (pt_amount pt productId) productAmount)
       (\<lambda>v. let pt1 = pt\<lparr>pt_amount := (pt_amount pt)(productId := v)\<rparr>;
                 productIndex = pt_productIndex pt1 productId
             in if pt_amount pt1 productId > 0 then
                  if productIndex = 0 then
                    Inr (pt1\<lparr>pt_productIds := pt_productIds pt1 @ [productId],
                             pt_productIndex := (pt_productIndex pt1)
                               (productId := length (pt_productIds pt1) + 1)\<rparr>)
                  else Inr pt1
                else
                  and_then
                    (if productIndex > 0 then
                       and_then
                         (drop_indexed (pt_productIds pt1) (pt_productIndex pt1)
                            productId productIndex)
                         (\<lambda>(ids, idx). Inr (pt1\<lparr>pt_productIds := ids, pt_productIndex := idx\<rparr>))
                     else Inr pt1)
                    (\<lambda>pt2. Inr (pt2\<lparr>pt_amount := (pt_amount pt2)(productId := 0)\<rparr>)))"

text \<open>
  The second half: the set of source trackers. \<open>trackerIndex\<close> is the index of the source
  tracker as read before the first half ran. Deleting the record
  \<^verbatim>\<open>productsTracked[sourceTrackerId]\<close> empties its array; a \<^verbatim>\<open>delete\<close> of a struct
  does not touch the mappings inside it.
\<close>

definition update_trackerIds ::
  "CarbonTrackerMappings \<Rightarrow> uint256 \<Rightarrow> uint256 \<Rightarrow> CarbonTrackerMappings result" where
  "update_trackerIds tm sourceTrackerId trackerIndex =
     (if length (pt_productIds (tm_productsTracked tm sourceTrackerId)) > 0 then
        if trackerIndex = 0 then
          Inr (tm\<lparr>tm_trackerIds := tm_trackerIds tm @ [sourceTrackerId],
                  tm_trackerIndex := (tm_trackerIndex tm)
                    (sourceTrackerId := length (tm_trackerIds tm) + 1)\<rparr>)
        else Inr tm
      else
        and_then
          (if trackerIndex > 0 then
             and_then
               (drop_indexed (tm_trackerIds tm) (tm_trackerIndex tm) sourceTrackerId trackerIndex)
               (\<lambda>(ids, idx). Inr (tm\<lparr>tm_trackerIds := ids, tm_trackerIndex := idx\<rparr>))
           else Inr tm)
          (\<lambda>tm1. Inr (tm1\<lparr>tm_productsTracked := (tm_productsTracked tm1)
                    (sourceTrackerId :=
                       (tm_productsTracked tm1 sourceTrackerId)\<lparr>pt_productIds := []\<rparr>)\<rparr>)))"

definition updateTrackedProducts_mappings ::
  "CarbonTrackerMappings \<Rightarrow> uint256 \<Rightarrow> uint256 \<Rightarrow> uint256 \<Rightarrow> CarbonTrackerMappings result" where
  "updateTrackedProducts_mappings tm sourceTrackerId productId productAmount =
     (let trackerIndex = tm_trackerIndex tm sourceTrackerId in
      and_then
        (update_productsTracked (tm_productsTracked tm sourceTrackerId) productId productAmount)
        (\<lambda>pt. update_trackerIds
                 (tm\<lparr>tm_productsTracked := (tm_productsTracked tm)(sourceTrackerId := pt)\<rparr>)
                 sourceTrackerId trackerIndex))"

definition updateTrackedProducts ::
  "contract \<Rightarrow> uint256 \<Rightarrow> uint256 \<Rightarrow> uint256 \<Rightarrow> uint256 \<Rightarrow> contract result" where
  "updateTrackedProducts s trackerId sourceTrackerId productId productAmount =
     and_then
       (updateTrackedProducts_mappings (trackerMappings s trackerId)
          sourceTrackerId productId productAmount)
       (\<lambda>tm. Inr (s\<lparr>trackerMappings := (trackerMappings s)(trackerId := tm)\<rparr>))"

definition trackProduct ::
  "net \<Rightarrow> call \<Rightarrow> contract \<Rightarrow> uint256 \<Rightarrow> uint256 \<Rightarrow> uint256 \<Rightarrow> uint256 \<Rightarrow> contract result" where
  "trackProduct n c s trackerId sourceTrackerId productId productAmount =
     and_then (notAudited s trackerId)
       (\<lambda>_. and_then (trackerExists s trackerId)
       (\<lambda>_. and_then (isAuditorOrOwner n c s trackerId (msg_sender c))
       (\<lambda>_. if \<not> trackerId \<noteq> pd_trackerId (productData s productId)
             then Inl SelfReferenceNotAllowed
             else if \<not> productBalance s productId (msg_sender c) > productAmount
             then Inl InsufficientProductBalance
             else and_then (safe_sub (productBalance s productId (msg_sender c)) productAmount)
                    (\<lambda>v. updateTrackedProducts (set_balance s productId (msg_sender c) v)
                           trackerId sourceTrackerId productId productAmount))))"

subsection \<open>Audit\<close>

definition audit :: "net \<Rightarrow> call \<Rightarrow> contract \<Rightarrow> uint256 \<Rightarrow> contract result" where
  "audit n c s trackerId =
     and_then (notAudited s trackerId)
       (\<lambda>_. and_then (isAuditor_modifier n c s trackerId)
       (\<lambda>_. Inr (s\<lparr>trackerData := (trackerData s)(trackerId :=
                    (trackerData s trackerId)\<lparr>td_auditor := msg_sender c\<rparr>)\<rparr>)))"

definition removeAudit :: "net \<Rightarrow> call \<Rightarrow> contract \<Rightarrow> uint256 \<Rightarrow> contract result" where
  "removeAudit n c s trackerId =
     and_then (isAuditor_modifier n c s trackerId)
       (\<lambda>_. Inr (s\<lparr>trackerData := (trackerData s)(trackerId :=
                    (trackerData s trackerId)\<lparr>td_auditor := 0\<rparr>)\<rparr>))"

subsection \<open>Emissions\<close>

text \<open>
  \<^verbatim>\<open>getTotalEmissions\<close> and \<^verbatim>\<open>emissionsFactor\<close> call each other along the lineage, and
  nothing in the source bounds the depth. The model counts the depth down: \<open>fuel\<close> is the
  number of nested calls of \<^verbatim>\<open>getTotalEmissions\<close> the transaction can afford, and a call
  with none left fails with \<open>OutOfGas\<close>.
\<close>

fun sum_tokens :: "(uint256 \<Rightarrow> uint256) \<Rightarrow> uint256 \<Rightarrow> uint256 list \<Rightarrow> uint256 result" where
  "sum_tokens amount totalEmissions [] = Inr totalEmissions"
| "sum_tokens amount totalEmissions (tokenId # rest) =
     and_then (safe_add totalEmissions (amount tokenId))
       (\<lambda>t. sum_tokens amount t rest)"

fun sum_products ::
  "uint256 \<Rightarrow> (uint256 \<Rightarrow> uint256 result) \<Rightarrow> ProductsTracked \<Rightarrow> uint256 \<Rightarrow> uint256
     \<Rightarrow> uint256 list \<Rightarrow> uint256 result" where
  "sum_products dec ef pt sourceTrackerId totalEmissions [] = Inr totalEmissions"
| "sum_products dec ef pt sourceTrackerId totalEmissions (productId # rest) =
     and_then (ef sourceTrackerId)
       (\<lambda>f. and_then (safe_mul (pt_amount pt productId) f)
       (\<lambda>m. and_then (safe_div m dec)
       (\<lambda>d. and_then (safe_add totalEmissions d)
       (\<lambda>t. sum_products dec ef pt sourceTrackerId t rest))))"

fun sum_trackers ::
  "uint256 \<Rightarrow> (uint256 \<Rightarrow> uint256 result) \<Rightarrow> CarbonTrackerMappings \<Rightarrow> uint256
     \<Rightarrow> uint256 list \<Rightarrow> uint256 result" where
  "sum_trackers dec ef tm totalEmissions [] = Inr totalEmissions"
| "sum_trackers dec ef tm totalEmissions (sourceTrackerId # rest) =
     (let productsTracked = tm_productsTracked tm sourceTrackerId in
      and_then
        (sum_products dec ef productsTracked sourceTrackerId totalEmissions
           (pt_productIds productsTracked))
        (\<lambda>t. sum_trackers dec ef tm t rest))"

text \<open>\<^verbatim>\<open>_getTotalEmissions\<close>, with the emissions factor of a source tracker as \<open>ef\<close>.\<close>

definition getTotalEmissions_mappings ::
  "uint256 \<Rightarrow> (uint256 \<Rightarrow> uint256 result) \<Rightarrow> CarbonTrackerMappings \<Rightarrow> uint256 result" where
  "getTotalEmissions_mappings dec ef tm =
     and_then (sum_tokens (tm_amount tm) 0 (tm_tokenIds tm))
       (\<lambda>t. sum_trackers dec ef tm t (tm_trackerIds tm))"

text \<open>\<^verbatim>\<open>emissionsFactor\<close>, with \<^verbatim>\<open>getTotalEmissions\<close> as \<open>totalOf\<close>.\<close>

definition emissionsFactor_of ::
  "contract \<Rightarrow> (uint256 \<Rightarrow> uint256 result) \<Rightarrow> uint256 \<Rightarrow> uint256 result" where
  "emissionsFactor_of s totalOf trackerId =
     (if td_totalProductAmounts (trackerData s trackerId) > 0 then
        and_then (totalOf trackerId)
          (\<lambda>e. and_then (safe_mul e (decimalsEf s))
          (\<lambda>m. safe_div m (td_totalProductAmounts (trackerData s trackerId))))
      else Inr 0)"

fun getTotalEmissions :: "nat \<Rightarrow> contract \<Rightarrow> uint256 \<Rightarrow> uint256 result" where
  "getTotalEmissions 0 s trackerId = Inl OutOfGas"
| "getTotalEmissions (Suc fuel) s trackerId =
     getTotalEmissions_mappings (decimalsEf s)
       (emissionsFactor_of s (\<lambda>t. getTotalEmissions fuel s t))
       (trackerMappings s trackerId)"

definition emissionsFactor :: "nat \<Rightarrow> contract \<Rightarrow> uint256 \<Rightarrow> uint256 result" where
  "emissionsFactor fuel s trackerId =
     emissionsFactor_of s (\<lambda>t. getTotalEmissions fuel s t) trackerId"

section \<open>Vocabulary of the properties\<close>

definition succeeds :: "'a result \<Rightarrow> bool" where
  "succeeds r = (case r of Inl _ \<Rightarrow> False | Inr _ \<Rightarrow> True)"

subsection \<open>A sample network and sample storages\<close>

text \<open>
  In the sample network address 7 is a registered auditor and address 2 an industry
  account; the contract holds 1000 available units of every token; token 2 is of type 2,
  token 3 of type 1 and every other token of type 4.
\<close>

definition example_net :: net where
  "example_net = \<lparr>net_isAuditor = (\<lambda>a. a = 7), net_isIndustry = (\<lambda>a. a = 2),
     net_getAvailableAndRetired = (\<lambda>holder tokenId. (1000, 0)),
     net_getTokenTypeId = (\<lambda>tokenId. if tokenId = 2 then 2 else if tokenId = 3 then 1 else 4)\<rparr>"

definition example_call :: "address \<Rightarrow> call" where
  "example_call a = \<lparr>msg_sender = a, block_timestamp = 1000, this_address = 99\<rparr>"

text \<open>
  A run of the contract on the sample network, one storage per transaction:
  \<^item> \<open>state1\<close>: the auditor 7 calls \<^verbatim>\<open>track\<close>, issuing tracker 1 to address 1 for the
    trackee 2 with 100 units of token 1;
  \<^item> \<open>state2\<close>: the auditor adds a product of amount 50 with \<^verbatim>\<open>productsUpdate\<close>;
  \<^item> \<open>state3\<close>: the auditor audits tracker 1;
  \<^item> \<open>state4\<close>: the owner 1 transfers 30 units of product 1 to address 5;
  \<^item> \<open>state5\<close>: address 5 calls \<^verbatim>\<open>track\<close>, issuing tracker 2 to itself without tokens;
  \<^item> \<open>state6\<close>: address 5 tracks 20 units of product 1 from tracker 1 into tracker 2.
\<close>

definition state1 :: contract where
  "state1 = (constructor 9)\<lparr>numOfUniqueTrackers := 1,
     trackerData := (\<lambda>_. empty_details)(1 := empty_details\<lparr>td_trackerId := 1,
        td_createdBy := 7, td_trackee := 2, td_dateCreated := 1000\<rparr>),
     trackerMappings := (\<lambda>_. empty_mappings)(1 := empty_mappings\<lparr>tm_tokenIds := [1],
        tm_idIndex := (\<lambda>_. 0)(1 := 1), tm_amount := (\<lambda>_. 0)(1 := 100)\<rparr>),
     lockedAmount := (\<lambda>_. 0)(1 := 100),
     owners := (\<lambda>_. 0)(1 := 1)\<rparr>"

definition state2 :: contract where
  "state2 = state1\<lparr>numOfProducts := 1,
     trackerData := (trackerData state1)(1 :=
        (trackerData state1 1)\<lparr>td_totalProductAmounts := 50\<rparr>),
     trackerMappings := (trackerMappings state1)(1 :=
        (trackerMappings state1 1)\<lparr>tm_productIds := [1]\<rparr>),
     productData := (\<lambda>_. empty_product)(1 := \<lparr>pd_trackerId = 1, pd_auditor = 7,
        pd_amount = 50, pd_available = 50, pd_name = ''oil'', pd_unit = ''bbl'',
        pd_unitAmount = ''50''\<rparr>)\<rparr>"

definition state3 :: contract where
  "state3 = state2\<lparr>trackerData := (trackerData state2)(1 :=
     (trackerData state2 1)\<lparr>td_auditor := 7\<rparr>)\<rparr>"

definition state4 :: contract where
  "state4 = state3\<lparr>productData := (productData state3)(1 :=
        (productData state3 1)\<lparr>pd_available := 20\<rparr>),
     productBalance := (\<lambda>_ _. 0)(1 := (\<lambda>_. 0)(5 := 30))\<rparr>"

definition state5 :: contract where
  "state5 = state4\<lparr>numOfUniqueTrackers := 2,
     trackerData := (trackerData state4)(2 := empty_details\<lparr>td_trackerId := 2,
        td_createdBy := 5, td_trackee := 2, td_dateCreated := 1000\<rparr>),
     owners := (owners state4)(2 := 5)\<rparr>"

definition state6 :: contract where
  "state6 = state5\<lparr>productBalance := (\<lambda>_ _. 0)(1 := (\<lambda>_. 0)(5 := 10)),
     trackerMappings := (trackerMappings state5)(2 := empty_mappings\<lparr>tm_trackerIds := [1],
        tm_trackerIndex := (\<lambda>_. 0)(1 := 1),
        tm_productsTracked := (\<lambda>_. empty_tracked)(1 := \<lparr>pt_productIds = [1],
           pt_productIndex = (\<lambda>_. 0)(1 := 1), pt_amount = (\<lambda>_. 0)(1 := 20)\<rparr>)\<rparr>)\<rparr>"

subsection \<open>Derived quantities\<close>

text \<open>The sum of the amounts of the products in the product array of a tracker.\<close>

definition sumOfProductAmounts :: "contract \<Rightarrow> uint256 \<Rightarrow> nat" where
  "sumOfProductAmounts s trackerId =
     sum_list (map (\<lambda>p. pd_amount (productData s p))
       (tm_productIds (trackerMappings s trackerId)))"

text \<open>
  What a call of \<^verbatim>\<open>transferProduct\<close> may draw from the product's \<^verbatim>\<open>available\<close> pool: all
  of it when the caller owns the tracker of the product, nothing otherwise.
\<close>

definition drawable :: "call \<Rightarrow> contract \<Rightarrow> uint256 \<Rightarrow> uint256" where
  "drawable c s productId =
     (if msg_sender c = owners s (pd_trackerId (productData s productId))
      then pd_available (productData s productId) else 0)"

text \<open>The amount a list of pairs submits for one token id, over all its occurrences.\<close>

definition submitted :: "(uint256 \<times> uint256) list \<Rightarrow> uint256 \<Rightarrow> nat" where
  "submitted pairs tokenId = sum_list (map snd (filter (\<lambda>p. fst p = tokenId) pairs))"

text \<open>The available amount of a token the network reports for the tracker contract.\<close>

definition available_of :: "net \<Rightarrow> call \<Rightarrow> uint256 \<Rightarrow> uint256" where
  "available_of n c tokenId = fst (net_getAvailableAndRetired n (this_address c) tokenId)"

subsection \<open>Consistency of the indexed sets\<close>

text \<open>
  An indexed set is an array with a map from elements to 1-based positions, 0 for an
  element that is absent. It is consistent when no element occurs twice, the stored index
  of the element in slot \<open>i\<close> is \<open>i + 1\<close>, and only elements of the array have an index.
\<close>

definition indexed_ok :: "uint256 list \<Rightarrow> (uint256 \<Rightarrow> uint256) \<Rightarrow> bool" where
  "indexed_ok ids idx \<longleftrightarrow>
     distinct ids \<and> (\<forall>i < length ids. idx (ids ! i) = i + 1) \<and> (\<forall>x. idx x \<noteq> 0 \<longrightarrow> x \<in> set ids)"

text \<open>
  A lineage record is consistent when its product set is, and the indexed products are
  those with a positive tracked amount. The lineage of a tracker is consistent when its set of source
  trackers is, every record is, and the indexed source trackers are those with a product.
\<close>

definition tracked_ok :: "ProductsTracked \<Rightarrow> bool" where
  "tracked_ok pt \<longleftrightarrow>
     indexed_ok (pt_productIds pt) (pt_productIndex pt) \<and>
     (\<forall>p. pt_productIndex pt p \<noteq> 0 \<longleftrightarrow> 0 < pt_amount pt p)"

definition lineage_ok :: "CarbonTrackerMappings \<Rightarrow> bool" where
  "lineage_ok tm \<longleftrightarrow>
     indexed_ok (tm_trackerIds tm) (tm_trackerIndex tm) \<and>
     (\<forall>src. tracked_ok (tm_productsTracked tm src) \<and>
            (tm_trackerIndex tm src \<noteq> 0 \<longleftrightarrow> pt_productIds (tm_productsTracked tm src) \<noteq> []))"



text \<open>
  A storage in which tracker 2 has a lineage record for the source tracker 3 whose product
  7 is indexed while its tracked amount is 0. The contract never produces it: it is the
  storage the removal branch of \<^verbatim>\<open>_updateTrackedProducts\<close> is written for.
\<close>

definition stale_lineage :: CarbonTrackerMappings where
  "stale_lineage = empty_mappings\<lparr>tm_trackerIds := [3],
     tm_trackerIndex := (\<lambda>_. 0)(3 := 1),
     tm_productsTracked := (\<lambda>_. empty_tracked)(3 := \<lparr>pt_productIds = [7],
        pt_productIndex = (\<lambda>_. 0)(7 := 1), pt_amount = (\<lambda>_. 0)\<rparr>)\<rparr>"

definition stale_state :: contract where
  "stale_state = (constructor 9)\<lparr>trackerMappings := (\<lambda>_. empty_mappings)(2 := stale_lineage)\<rparr>"

subsection \<open>The preconditions of the gated operations\<close>

text \<open>
  What \<^verbatim>\<open>trackUpdate\<close>, \<^verbatim>\<open>productsUpdate\<close> and \<^verbatim>\<open>trackProduct\<close> ask for besides an
  unaudited tracker: existence, authorization, array lengths and balances, on storage
  as the contract builds it (the \<^verbatim>\<open>trackerId\<close> field of a tracker record is its key, the
  lineage is consistent).

  For the pairs of \<^verbatim>\<open>_trackTokens\<close>: the token ids are distinct; unless the caller is the
  network contract, the available amount covers what is locked plus the new amount; no sum
  overflows; and a type 2 amount does not exceed what the tracker holds of that token.
\<close>

definition tokens_fit ::
  "net \<Rightarrow> call \<Rightarrow> contract \<Rightarrow> uint256 \<Rightarrow> (uint256 \<times> uint256) list \<Rightarrow> bool" where
  "tokens_fit n c s slot pairs \<longleftrightarrow>
     distinct (map fst pairs) \<and>
     (\<forall>(tokenId, amount) \<in> set pairs.
        (msg_sender c = netAddress s \<or>
         lockedAmount s tokenId + amount \<le> available_of n c tokenId) \<and>
        lockedAmount s tokenId + amount \<le> MAX_UINT256 \<and>
        (net_getTokenTypeId n tokenId = 4 \<longrightarrow>
           tm_amount (trackerMappings s slot) tokenId + amount \<le> MAX_UINT256) \<and>
        (net_getTokenTypeId n tokenId = 2 \<longrightarrow>
           amount \<le> tm_amount (trackerMappings s slot) tokenId))"

definition trackUpdate_pre ::
  "net \<Rightarrow> call \<Rightarrow> contract \<Rightarrow> uint256 \<Rightarrow> uint256 list \<Rightarrow> uint256 list \<Rightarrow> bool" where
  "trackUpdate_pre n c s trackerId tokenIds tokenAmounts \<longleftrightarrow>
     trackerId \<le> numOfUniqueTrackers s \<and>
     td_trackerId (trackerData s trackerId) = trackerId \<and>
     net_isIndustry n (td_trackee (trackerData s trackerId)) \<and>
     isAuditor_check n c s (td_trackee (trackerData s trackerId)) \<and>
     length tokenAmounts = length tokenIds \<and>
     tokens_fit n c s trackerId (zip tokenIds tokenAmounts)"

text \<open>
  For the entries of \<^verbatim>\<open>productsUpdate\<close>: an existing product belongs to the tracker, was
  registered by the caller, and its new amount does not exceed the tracker's current total
  (the source subtracts the new amount before adding it); the total and all amounts
  together fit 256 bits.
\<close>

definition products_fit :: "call \<Rightarrow> contract \<Rightarrow> uint256 \<Rightarrow> product_entry list \<Rightarrow> bool" where
  "products_fit c s trackerId entries \<longleftrightarrow>
     (\<forall>entry \<in> set entries. 0 < fst entry \<longrightarrow>
        pd_trackerId (productData s (fst entry)) = trackerId \<and>
        pd_auditor (productData s (fst entry)) = msg_sender c \<and>
        fst (snd entry) \<le> td_totalProductAmounts (trackerData s trackerId)) \<and>
     td_totalProductAmounts (trackerData s trackerId)
       + sum_list (map (\<lambda>entry. fst (snd entry)) entries) \<le> MAX_UINT256"

definition productsUpdate_pre ::
  "net \<Rightarrow> call \<Rightarrow> contract \<Rightarrow> uint256 \<Rightarrow> uint256 list \<Rightarrow> uint256 list
     \<Rightarrow> string list \<Rightarrow> string list \<Rightarrow> string list \<Rightarrow> bool" where
  "productsUpdate_pre n c s trackerId productIds productAmounts productNames productUnits
       productUnitAmounts \<longleftrightarrow>
     trackerId \<le> numOfUniqueTrackers s \<and>
     isAuditor_check n c s (td_trackee (trackerData s trackerId)) \<and>
     length productAmounts = length productIds \<and>
     length productNames = length productIds \<and>
     length productUnitAmounts = length productIds \<and>
     length productUnits = length productIds \<and>
     products_fit c s trackerId
       (zip productIds (zip productAmounts
         (zip productNames (zip productUnits productUnitAmounts))))"

text \<open>
  For \<^verbatim>\<open>trackProduct\<close>: the checks of the function, a consistent lineage and no overflow of
  the tracked amount.
\<close>

definition trackProduct_pre ::
  "net \<Rightarrow> call \<Rightarrow> contract \<Rightarrow> uint256 \<Rightarrow> uint256 \<Rightarrow> uint256 \<Rightarrow> uint256 \<Rightarrow> bool" where
  "trackProduct_pre n c s trackerId sourceTrackerId productId productAmount \<longleftrightarrow>
     trackerId \<le> numOfUniqueTrackers s \<and>
     (isAuditor_check n c s (msg_sender c) \<or>
      (owners s trackerId \<noteq> 0 \<and> owners s trackerId = msg_sender c)) \<and>
     trackerId \<noteq> pd_trackerId (productData s productId) \<and>
     productAmount < productBalance s productId (msg_sender c) \<and>
     lineage_ok (trackerMappings s trackerId) \<and>
     pt_amount (tm_productsTracked (trackerMappings s trackerId) sourceTrackerId) productId
       + productAmount \<le> MAX_UINT256"

text \<open>\<open>state7\<close>: the sample run continues, the auditor 7 audits tracker 2.\<close>

definition state7 :: contract where
  "state7 = state6\<lparr>trackerData := (trackerData state6)(2 :=
     (trackerData state6 2)\<lparr>td_auditor := 7\<rparr>)\<rparr>"

subsection \<open>Further sample storages\<close>

text \<open>
  More runs from the sample storages:
  \<^item> \<open>state4_auditor\<close>: from \<open>state3\<close>, the owner 1 transfers 30 units of product 1 to
    the auditor 7;
  \<^item> \<open>state6_self\<close>: from \<open>state5\<close>, address 5 tracks 20 units of product 1 into tracker
    2 with tracker 2 itself as the source tracker;
  \<^item> \<open>state7_self\<close>: the auditor then adds a product of amount 5 to tracker 2;
  \<^item> \<open>big_state1\<close> and \<open>big_state2\<close>: on a network that reports \<open>2 ^ 255\<close> available
    units, the auditor issues tracker 1 with \<open>2 ^ 250\<close> units of token 1 and adds a product
    of amount 1.
\<close>

definition state4_auditor :: contract where
  "state4_auditor = state3\<lparr>productData := (productData state3)(1 :=
        (productData state3 1)\<lparr>pd_available := 20\<rparr>),
     productBalance := (\<lambda>_ _. 0)(1 := (\<lambda>_. 0)(7 := 30))\<rparr>"

definition state6_self :: contract where
  "state6_self = state5\<lparr>productBalance := (\<lambda>_ _. 0)(1 := (\<lambda>_. 0)(5 := 10)),
     trackerMappings := (trackerMappings state5)(2 := empty_mappings\<lparr>tm_trackerIds := [2],
        tm_trackerIndex := (\<lambda>_. 0)(2 := 1),
        tm_productsTracked := (\<lambda>_. empty_tracked)(2 := \<lparr>pt_productIds = [1],
           pt_productIndex = (\<lambda>_. 0)(1 := 1), pt_amount = (\<lambda>_. 0)(1 := 20)\<rparr>)\<rparr>)\<rparr>"

definition state7_self :: contract where
  "state7_self = state6_self\<lparr>numOfProducts := 2,
     trackerData := (trackerData state6_self)(2 :=
        (trackerData state6_self 2)\<lparr>td_totalProductAmounts := 5\<rparr>),
     trackerMappings := (trackerMappings state6_self)(2 :=
        (trackerMappings state6_self 2)\<lparr>tm_productIds := [2]\<rparr>),
     productData := (productData state6_self)(2 := \<lparr>pd_trackerId = 2, pd_auditor = 7,
        pd_amount = 5, pd_available = 5, pd_name = ''gas'', pd_unit = ''m3'',
        pd_unitAmount = ''5''\<rparr>)\<rparr>"

definition big_net :: net where
  "big_net = example_net\<lparr>net_getAvailableAndRetired := (\<lambda>holder tokenId. (2 ^ 255, 0))\<rparr>"

definition big_state1 :: contract where
  "big_state1 = (constructor 9)\<lparr>numOfUniqueTrackers := 1,
     trackerData := (\<lambda>_. empty_details)(1 := empty_details\<lparr>td_trackerId := 1,
        td_createdBy := 7, td_trackee := 2, td_dateCreated := 1000\<rparr>),
     trackerMappings := (\<lambda>_. empty_mappings)(1 := empty_mappings\<lparr>tm_tokenIds := [1],
        tm_idIndex := (\<lambda>_. 0)(1 := 1), tm_amount := (\<lambda>_. 0)(1 := 2 ^ 250)\<rparr>),
     lockedAmount := (\<lambda>_. 0)(1 := 2 ^ 250),
     owners := (\<lambda>_. 0)(1 := 1)\<rparr>"

definition big_state2 :: contract where
  "big_state2 = big_state1\<lparr>numOfProducts := 1,
     trackerData := (trackerData big_state1)(1 :=
        (trackerData big_state1 1)\<lparr>td_totalProductAmounts := 1\<rparr>),
     trackerMappings := (trackerMappings big_state1)(1 :=
        (trackerMappings big_state1 1)\<lparr>tm_productIds := [1]\<rparr>),
     productData := (\<lambda>_. empty_product)(1 := \<lparr>pd_trackerId = 1, pd_auditor = 7,
        pd_amount = 1, pd_available = 1, pd_name = ''oil'', pd_unit = ''bbl'',
        pd_unitAmount = ''1''\<rparr>)\<rparr>"



subsection \<open>Runs of the contract\<close>

text \<open>
  The public functions of the model as transactions. A run applies them in turn, each with
  its own network and call context; a transaction that reverts leaves the storage as it
  was. (\<^verbatim>\<open>registerTracker\<close> and \<^verbatim>\<open>approveVerifier\<close> write the role table and the approval
  map only and are not among them.)
\<close>

datatype transaction =
    Track address address "uint256 list" "uint256 list" uint256 uint256 string string
  | TrackUpdate uint256 "uint256 list" "uint256 list" uint256 uint256 string string
  | ProductsUpdate uint256 "uint256 list" "uint256 list" "string list" "string list" "string list"
  | TransferProduct uint256 uint256 address
  | TrackProduct uint256 uint256 uint256 uint256
  | Audit uint256
  | RemoveAudit uint256

fun transact :: "net \<Rightarrow> call \<Rightarrow> contract \<Rightarrow> transaction \<Rightarrow> contract result" where
  "transact n c s (Track issuedTo trackee tokenIds tokenAmounts fromDate thruDate description
       metadata) =
     track n c s issuedTo trackee tokenIds tokenAmounts fromDate thruDate description metadata"
| "transact n c s (TrackUpdate trackerId tokenIds tokenAmounts fromDate thruDate description
       metadata) =
     trackUpdate n c s trackerId tokenIds tokenAmounts fromDate thruDate description metadata"
| "transact n c s (ProductsUpdate trackerId productIds productAmounts productNames productUnits
       productUnitAmounts) =
     productsUpdate n c s trackerId productIds productAmounts productNames productUnits
       productUnitAmounts"
| "transact n c s (TransferProduct productId productAmount trackee) =
     transferProduct c s productId productAmount trackee"
| "transact n c s (TrackProduct trackerId sourceTrackerId productId productAmount) =
     trackProduct n c s trackerId sourceTrackerId productId productAmount"
| "transact n c s (Audit trackerId) = audit n c s trackerId"
| "transact n c s (RemoveAudit trackerId) = removeAudit n c s trackerId"

fun run :: "contract \<Rightarrow> (net \<times> call \<times> transaction) list \<Rightarrow> contract" where
  "run s [] = s"
| "run s ((n, c, tx) # rest) =
     run (case transact n c s tx of Inl _ \<Rightarrow> s | Inr s' \<Rightarrow> s') rest"

text \<open>Two storages with the same lineage on every tracker.\<close>

definition same_lineage :: "contract \<Rightarrow> contract \<Rightarrow> bool" where
  "same_lineage s s' \<longleftrightarrow>
     (\<forall>t. tm_trackerIds (trackerMappings s' t) = tm_trackerIds (trackerMappings s t) \<and>
          tm_trackerIndex (trackerMappings s' t) = tm_trackerIndex (trackerMappings s t) \<and>
          tm_productsTracked (trackerMappings s' t) = tm_productsTracked (trackerMappings s t))"


text \<open>Every element of an indexed set of \<open>s\<close> is still in that set in \<open>s'\<close>.\<close>

definition lineage_grows :: "contract \<Rightarrow> contract \<Rightarrow> bool" where
  "lineage_grows s s' \<longleftrightarrow>
     (\<forall>t. set (tm_trackerIds (trackerMappings s t)) \<subseteq> set (tm_trackerIds (trackerMappings s' t)) \<and>
        (\<forall>src. set (pt_productIds (tm_productsTracked (trackerMappings s t) src))
                \<subseteq> set (pt_productIds (tm_productsTracked (trackerMappings s' t) src))))"


section \<open>Properties\<close>

subsection \<open>Basic facts\<close>

lemma and_then_Inl [simp]: "and_then (Inl e) f = Inl e"
  by (simp add: and_then_def)

lemma and_then_Inr [simp]: "and_then (Inr x) f = f x"
  by (simp add: and_then_def)

lemma and_then_eq_Inr: "and_then m f = Inr y \<longleftrightarrow> (\<exists>x. m = Inr x \<and> f x = Inr y)"
  by (cases m) simp_all

lemma succeeds_simps [simp]: "succeeds (Inr x)" "\<not> succeeds (Inl e)"
  by (simp_all add: succeeds_def)

lemma succeeds_iff: "succeeds r \<longleftrightarrow> (\<exists>x. r = Inr x)"
  by (cases r) simp_all

lemma set_fields_keeps [simp]:
  "td_trackee (set_fields td f t d m) = td_trackee td"
  "td_trackerId (set_fields td f t d m) = td_trackerId td"
  "td_auditor (set_fields td f t d m) = td_auditor td"
  "td_totalProductAmounts (set_fields td f t d m) = td_totalProductAmounts td"
  by (simp_all add: set_fields_def Let_def)

lemma and_then_eq_Inr_prod:
  "and_then m (\<lambda>(a, b). f a b) = Inr y \<longleftrightarrow> (\<exists>a b. m = Inr (a, b) \<and> f a b = Inr y)"
  by (cases m) auto

lemma increment_small: "increment 0 = 1" "increment 1 = 2" "increment (Suc 0) = 2"
  by (simp_all add: increment_def)

text \<open>The definitions a concrete call is evaluated with.\<close>

lemmas model_defs = track_def track_new_def increment_small Let_def mint_def trackTokens_def
  isAuditor_require_def isAuditor_check_def isAuditor_modifier_def notAudited_def
  trackerExists_def set_fields_def safe_add_def safe_sub_def safe_mul_def safe_div_def
  MAX_UINT256_def addTokenAmounts_def trackUpdate_def productsUpdate_def
  productsUpdate_step_def set_total_def set_available_def set_balance_def transferProduct_def
  ownerOf_def isAudited_def isAuditorOrOwner_def trackProduct_def updateTrackedProducts_def
  updateTrackedProducts_mappings_def update_productsTracked_def update_trackerIds_def
  drop_indexed_def get_at_def set_at_def audit_def removeAudit_def
  getTotalEmissions_mappings_def emissionsFactor_of_def emissionsFactor_def

lemmas sample_defs = example_net_def example_call_def constructor_def empty_details_def
  empty_mappings_def empty_product_def empty_tracked_def

lemmas state_defs = state1_def state2_def state3_def state4_def state5_def state6_def
  state7_def

lemmas more_defs = state4_auditor_def state6_self_def state7_self_def big_net_def
  big_state1_def big_state2_def

subsection \<open>The sample run is a run of the contract\<close>




lemma transferProduct_reaches_state4: "transferProduct (example_call 1) state3 1 30 5 = Inr state4"
  by (simp add: model_defs sample_defs state1_def state2_def state3_def state4_def)


lemma trackProduct_reaches_state6:
  "trackProduct example_net (example_call 5) state5 2 1 1 20 = Inr state6"
  by (simp add: model_defs sample_defs state_defs)

lemma audit_reaches_state7: "audit example_net (example_call 7) state6 2 = Inr state7"
  by (simp add: model_defs sample_defs state_defs)

lemma removeAudit_reaches_state6: "removeAudit example_net (example_call 7) state7 2 = Inr state6"
  by (simp add: model_defs sample_defs state_defs)

lemma removeAudit_reaches_state2: "removeAudit example_net (example_call 7) state3 1 = Inr state2"
  by (simp add: model_defs sample_defs state_defs)

lemma transferProduct_reaches_state4_auditor:
  "transferProduct (example_call 1) state3 1 30 7 = Inr state4_auditor"
  by (simp add: model_defs sample_defs state_defs more_defs)

lemma trackProduct_reaches_state6_self:
  "trackProduct example_net (example_call 5) state5 2 2 1 20 = Inr state6_self"
  by (simp add: model_defs sample_defs state_defs more_defs)

lemma productsUpdate_reaches_state7_self:
  "productsUpdate example_net (example_call 7) state6_self 2 [0] [5] [''gas''] [''m3''] [''5'']
     = Inr state7_self"
  by (simp add: model_defs sample_defs state_defs more_defs)

lemma track_reaches_big_state1:
  "track big_net (example_call 7) (constructor 9) 1 2 [1] [2 ^ 250] 0 0 [] [] = Inr big_state1"
  by (simp add: model_defs sample_defs more_defs)

lemma productsUpdate_reaches_big_state2:
  "productsUpdate big_net (example_call 7) big_state1 1 [0] [1] [''oil''] [''bbl''] [''1'']
     = Inr big_state2"
  by (simp add: model_defs sample_defs more_defs)


subsection \<open>What a successful call went through\<close>

lemma trackTokens_Inr:
  assumes "trackTokens n c s key tokenIds tokenAmounts = Inr s'"
  shows "net_isIndustry n (td_trackee (trackerData s (td_trackerId (trackerData s key))))"
    and "isAuditor_check n c s (td_trackee (trackerData s key))"
    and "length tokenAmounts = length tokenIds"
  using assms
  by (auto simp: trackTokens_def Let_def isAuditor_require_def split: if_splits)

subsection \<open>Length check of \<^verbatim>\<open>track\<close>\<close>

text \<open>
  C8, as the source has it. \<^verbatim>\<open>track\<close> hands the two arrays to \<^verbatim>\<open>_trackTokens\<close> only when
  \<^verbatim>\<open>tokenIds\<close> is not empty, and \<^verbatim>\<open>_trackTokens\<close> compares the lengths after the mint, the
  industry check and the auditor check. So: a call of \<^verbatim>\<open>track\<close> whose arrays differ in
  length and whose \<^verbatim>\<open>tokenIds\<close> is not empty never succeeds, and it fails with
  \<open>LengthMismatch\<close> when the mint goes through (\<^verbatim>\<open>issuedTo\<close> is not the zero address and
  the new token id has no owner), the trackee is an industry account and the caller is an
  authorized auditor of the trackee.
\<close>

theorem track_length_mismatch:
  "length tokenIds \<noteq> length tokenAmounts \<and> tokenIds \<noteq> [] \<longrightarrow>
     \<not> succeeds (track n c s issuedTo trackee tokenIds tokenAmounts
                   fromDate thruDate description metadata) \<and>
     (issuedTo \<noteq> 0 \<and> owners s (increment (numOfUniqueTrackers s)) = 0 \<and>
      net_isIndustry n trackee \<and> isAuditor_check n c s trackee \<longrightarrow>
      track n c s issuedTo trackee tokenIds tokenAmounts fromDate thruDate description metadata
        = Inl LengthMismatch)"
  by (auto simp: track_def track_new_def Let_def mint_def trackTokens_def isAuditor_require_def
      isAuditor_check_def)

theorem track_length_mismatch_witness:
  "length [1 :: uint256] \<noteq> length ([] :: uint256 list) \<and> [1 :: uint256] \<noteq> [] \<and>
   (1::address) \<noteq> 0 \<and>
   owners (constructor 9) (increment (numOfUniqueTrackers (constructor 9))) = 0 \<and>
   net_isIndustry example_net 2 \<and>
   isAuditor_check example_net (example_call 7) (constructor 9) 2 \<and>
   track example_net (example_call 7) (constructor 9) 1 2 [1] [] 0 0 [] [] = Inl LengthMismatch"
  using track_length_mismatch
    [of "[1]" "[]" example_net "example_call 7" "constructor 9" 1 2 0 0 "[]" "[]"]
  by (simp add: constructor_def example_net_def example_call_def isAuditor_check_def)

text \<open>
  The claim as it is worded fails twice: with an empty \<^verbatim>\<open>tokenIds\<close> and one amount the
  call succeeds, and with a trackee that is no industry account the call fails with
  \<open>NotIndustry\<close> before the lengths are compared.
\<close>

theorem track_length_mismatch_counterexample:
  "length ([] :: uint256 list) \<noteq> length [5 :: uint256] \<and>
   succeeds (track example_net (example_call 7) (constructor 9) 1 2 [] [5] 0 0 [] []) \<and>
   length [1 :: uint256] \<noteq> length ([] :: uint256 list) \<and>
   track example_net (example_call 7) (constructor 9) 1 3 [1] [] 0 0 [] [] = Inl NotIndustry"
  by (simp add: track_def track_new_def increment_def Let_def mint_def constructor_def
      empty_details_def set_fields_def trackTokens_def example_net_def)

subsection \<open>\<^verbatim>\<open>trackUpdate\<close> always goes through \<^verbatim>\<open>_trackTokens\<close>\<close>

text \<open>
  C10. \<^verbatim>\<open>trackUpdate\<close> ends in \<^verbatim>\<open>_trackTokens\<close> whatever the arrays hold, so a call that
  succeeds, also one with two empty arrays, was made by an authorized auditor of the
  tracker's trackee, and that trackee is an industry account. The industry check reads the
  trackee through the \<^verbatim>\<open>trackerId\<close> field of the record; the hypothesis says that this
  field is the key of the record, as \<^verbatim>\<open>_track\<close> writes it.
\<close>

theorem trackUpdate_needs_auditor_and_industry:
  assumes "succeeds (trackUpdate n c s trackerId tokenIds tokenAmounts
                       fromDate thruDate description metadata)"
    and "td_trackerId (trackerData s trackerId) = trackerId"
  shows "isAuditor_check n c s (td_trackee (trackerData s trackerId)) \<and>
         net_isIndustry n (td_trackee (trackerData s trackerId))"
proof -
  let ?s1 = "s\<lparr>trackerData := (trackerData s)(trackerId :=
               set_fields ((trackerData s trackerId)\<lparr>td_dateUpdated := block_timestamp c\<rparr>)
                 fromDate thruDate description metadata)\<rparr>"
  from assms(1) obtain s' where
    tt: "trackTokens n c ?s1 trackerId tokenIds tokenAmounts = Inr s'"
    by (auto simp: succeeds_iff trackUpdate_def and_then_eq_Inr Let_def)
  from trackTokens_Inr(2)[OF tt]
  have "isAuditor_check n c ?s1 (td_trackee (trackerData s trackerId))"
    by simp
  then have a: "isAuditor_check n c s (td_trackee (trackerData s trackerId))"
    by (simp add: isAuditor_check_def)
  from trackTokens_Inr(1)[OF tt] assms(2)
  have b: "net_isIndustry n (td_trackee (trackerData s trackerId))"
    by simp
  from a b show ?thesis by simp
qed

theorem trackUpdate_needs_auditor_and_industry_witness:
  "succeeds (trackUpdate example_net (example_call 7) state1 1 [] [] 5 6 ''d'' ''m'') \<and>
   td_trackerId (trackerData state1 1) = 1 \<and>
   isAuditor_check example_net (example_call 7) state1 (td_trackee (trackerData state1 1)) \<and>
   net_isIndustry example_net (td_trackee (trackerData state1 1))"
  using trackUpdate_needs_auditor_and_industry
    [of example_net "example_call 7" state1 1 "[]" "[]" 5 6 "''d''" "''m''"]
  by (simp add: trackUpdate_def state1_def constructor_def notAudited_def trackerExists_def
      trackTokens_def isAuditor_require_def isAuditor_check_def example_net_def
      example_call_def empty_details_def Let_def)

subsection \<open>\<^verbatim>\<open>trackProduct\<close>\<close>

lemma update_productsTracked_amount:
  assumes "update_productsTracked pt pid amt = Inr pt'"
  shows "pt_amount pt' pid = pt_amount pt pid + amt"
proof -
  from assms have ok: "safe_add (pt_amount pt pid) amt = Inr (pt_amount pt pid + amt)"
    by (auto simp: update_productsTracked_def and_then_eq_Inr safe_add_def split: if_splits)
  show ?thesis
  proof (cases "pt_amount pt pid + amt > 0")
    case True
    with assms ok show ?thesis
      by (auto simp: update_productsTracked_def Let_def split: if_splits)
  next
    case False
    with assms ok show ?thesis
      by (auto simp: update_productsTracked_def Let_def and_then_eq_Inr split: if_splits)
  qed
qed

lemma update_trackerIds_amount:
  assumes "update_trackerIds tm src idx = Inr tm'"
  shows "pt_amount (tm_productsTracked tm' k) = pt_amount (tm_productsTracked tm k)"
proof (cases "0 < length (pt_productIds (tm_productsTracked tm src))")
  case True
  with assms have "tm' = tm \<or> tm' = tm\<lparr>tm_trackerIds := tm_trackerIds tm @ [src],
                  tm_trackerIndex := (tm_trackerIndex tm)(src := length (tm_trackerIds tm) + 1)\<rparr>"
    by (simp add: update_trackerIds_def split: if_splits)
  then show ?thesis by auto
next
  case False
  note empty = this
  show ?thesis
  proof (cases "0 < idx")
    case True
    show ?thesis
    proof (cases "drop_indexed (tm_trackerIds tm) (tm_trackerIndex tm) src idx")
      case (Inl e)
      with assms empty True show ?thesis
        by (simp add: update_trackerIds_def)
    next
      case (Inr r)
      obtain ids ix where r: "r = (ids, ix)" by (cases r)
      from assms empty True Inr r
      have "tm' = (tm\<lparr>tm_trackerIds := ids, tm_trackerIndex := ix\<rparr>)\<lparr>tm_productsTracked :=
          (tm_productsTracked tm)(src := (tm_productsTracked tm src)\<lparr>pt_productIds := []\<rparr>)\<rparr>"
        by (simp add: update_trackerIds_def)
      then show ?thesis by simp
    qed
  next
    case False
    with assms empty
    have "tm' = tm\<lparr>tm_productsTracked :=
          (tm_productsTracked tm)(src := (tm_productsTracked tm src)\<lparr>pt_productIds := []\<rparr>)\<rparr>"
      by (simp add: update_trackerIds_def)
    then show ?thesis by simp
  qed
qed

lemma updateTrackedProducts_mappings_amount:
  assumes "updateTrackedProducts_mappings tm src pid amt = Inr tm'"
  shows "pt_amount (tm_productsTracked tm' src) pid = pt_amount (tm_productsTracked tm src) pid + amt"
proof -
  from assms obtain pt where
    pt: "update_productsTracked (tm_productsTracked tm src) pid amt = Inr pt"
    and tm': "update_trackerIds (tm\<lparr>tm_productsTracked := (tm_productsTracked tm)(src := pt)\<rparr>)
                src (tm_trackerIndex tm src) = Inr tm'"
    by (auto simp: updateTrackedProducts_mappings_def Let_def and_then_eq_Inr)
  from update_trackerIds_amount[OF tm', of src] update_productsTracked_amount[OF pt]
  show ?thesis by simp
qed

text \<open>
  What a call of \<^verbatim>\<open>trackProduct\<close> that succeeds went through: the tracker unaudited, its id
  at most the tracker counter (\<^verbatim>\<open>_trackerExists\<close>), the caller passing
  \<^verbatim>\<open>_isAuditorOrOwner\<close>, the product owned by another tracker and the caller's product
  balance strictly above the amount; the call takes the amount from the caller's balance
  and adds it to the lineage record of the source tracker and the product. The auditor
  half of \<^verbatim>\<open>_isAuditorOrOwner\<close> is \<^verbatim>\<open>__isAuditor(msg.sender)\<close>: the approval list is looked
  up under the caller's own address.
\<close>

lemma trackProduct_success:
  assumes "trackProduct n c s trackerId sourceTrackerId productId productAmount = Inr s'"
  shows "td_auditor (trackerData s trackerId) = 0 \<and>
         trackerId \<le> numOfUniqueTrackers s \<and>
         (isAuditor_check n c s (msg_sender c) \<or> owners s trackerId = msg_sender c) \<and>
         pd_trackerId (productData s productId) \<noteq> trackerId \<and>
         productAmount < productBalance s productId (msg_sender c) \<and>
         productBalance s' productId (msg_sender c) =
           productBalance s productId (msg_sender c) - productAmount \<and>
         pt_amount (tm_productsTracked (trackerMappings s' trackerId) sourceTrackerId) productId =
           pt_amount (tm_productsTracked (trackerMappings s trackerId) sourceTrackerId) productId
             + productAmount"
proof -
  let ?sender = "msg_sender c"
  let ?s1 = "set_balance s productId ?sender (productBalance s productId ?sender - productAmount)"
  from assms have na: "td_auditor (trackerData s trackerId) = 0"
    by (auto simp: trackProduct_def notAudited_def and_then_eq_Inr split: if_splits)
  from assms have ex: "trackerId \<le> numOfUniqueTrackers s"
    by (auto simp: trackProduct_def notAudited_def trackerExists_def and_then_eq_Inr split: if_splits)
  from assms have ao: "isAuditor_check n c s ?sender \<or> owners s trackerId = ?sender"
    by (auto simp: trackProduct_def notAudited_def trackerExists_def isAuditorOrOwner_def
        ownerOf_def and_then_eq_Inr split: if_splits)
  from assms have rest: "pd_trackerId (productData s productId) \<noteq> trackerId"
      "productAmount < productBalance s productId ?sender"
      "updateTrackedProducts ?s1 trackerId sourceTrackerId productId productAmount = Inr s'"
    by (auto simp: trackProduct_def and_then_eq_Inr safe_sub_def split: if_splits)
  from rest(3) obtain tm where
    tm: "updateTrackedProducts_mappings (trackerMappings ?s1 trackerId)
           sourceTrackerId productId productAmount = Inr tm"
    and s': "s' = ?s1\<lparr>trackerMappings := (trackerMappings ?s1)(trackerId := tm)\<rparr>"
    by (auto simp: updateTrackedProducts_def and_then_eq_Inr)
  have bal: "productBalance s' productId ?sender = productBalance s productId ?sender - productAmount"
    by (simp add: s' set_balance_def)
  have lin: "pt_amount (tm_productsTracked (trackerMappings s' trackerId) sourceTrackerId) productId =
           pt_amount (tm_productsTracked (trackerMappings s trackerId) sourceTrackerId) productId
             + productAmount"
    using updateTrackedProducts_mappings_amount[OF tm] by (simp add: s' set_balance_def)
  from na ex ao rest(1,2) bal lin show ?thesis by simp
qed

lemma trackProduct_success_example:
  "trackProduct example_net (example_call 5) state5 2 1 1 20 = Inr state6 \<and>
   td_auditor (trackerData state5 2) = 0 \<and>
   2 \<le> numOfUniqueTrackers state5 \<and>
   owners state5 2 = msg_sender (example_call 5) \<and>
   pd_trackerId (productData state5 1) \<noteq> 2 \<and>
   productBalance state5 1 5 = 30 \<and>
   productBalance state6 1 5 = 10 \<and>
   pt_amount (tm_productsTracked (trackerMappings state5 2) 1) 1 = 0 \<and>
   pt_amount (tm_productsTracked (trackerMappings state6 2) 1) 1 = 20"
  using trackProduct_success [OF trackProduct_reaches_state6] trackProduct_reaches_state6
  by (simp add: state_defs sample_defs)

text \<open>
  C7 says that \<^verbatim>\<open>trackProduct\<close> succeeds only on a tracker that exists. Tracker ids start
  at 1, and \<^verbatim>\<open>_trackerExists\<close> asks for \<^verbatim>\<open>_numOfUniqueTrackers.current() >= trackerId\<close>,
  which the id 0 passes. In \<open>state4_auditor\<close> one tracker was issued, token 0 has no owner
  and the record of tracker 0 is untouched; the auditor 7, who holds 30 units of product 1,
  tracks 5 of them into tracker 0, and the call goes through: for a registered auditor
  \<^verbatim>\<open>||\<close> never evaluates \<^verbatim>\<open>ownerOf(0)\<close>.
\<close>

theorem trackProduct_accepts_tracker_0:
  "owners state4_auditor 0 = 0 \<and>
   td_trackerId (trackerData state4_auditor 0) = 0 \<and>
   td_createdBy (trackerData state4_auditor 0) = 0 \<and>
   numOfUniqueTrackers state4_auditor = 1 \<and>
   trackerExists state4_auditor 0 = Inr () \<and>
   succeeds (trackProduct example_net (example_call 7) state4_auditor 0 1 1 5) \<and>
   productBalance
     (projr (trackProduct example_net (example_call 7) state4_auditor 0 1 1 5)) 1 7 = 25 \<and>
   pt_amount (tm_productsTracked (trackerMappings
     (projr (trackProduct example_net (example_call 7) state4_auditor 0 1 1 5)) 0) 1) 1 = 5"
  by (simp add: model_defs sample_defs state_defs more_defs)

subsection \<open>The emissions factor\<close>








text \<open>
  Only the recursion runs out of depth: a call that fails with \<open>OutOfGas\<close> went through a
  source tracker with products whose own call failed so. On a ranked lineage the call at
  depth \<open>rank + 1\<close> therefore returns or reverts in SafeMath.
\<close>

lemma safe_not_OutOfGas [simp]:
  "safe_add a b \<noteq> Inl OutOfGas" "safe_sub a b \<noteq> Inl OutOfGas"
  "safe_mul a b \<noteq> Inl OutOfGas" "safe_div a b \<noteq> Inl OutOfGas"
  by (simp_all add: safe_add_def safe_sub_def safe_mul_def safe_div_def)
















text \<open>
  The lineage of the sample run: tracker 2 holds 20 units of product 1 of tracker 1, whose
  factor is 2000000, so its total is 40. The call needs depth 2.
\<close>

lemma getTotalEmissions_state6:
  "getTotalEmissions (Suc (Suc 0)) state6 2 = Inr 40"
  "getTotalEmissions (Suc 0) state6 2 = Inl OutOfGas"
  by (simp_all add: model_defs sample_defs state_defs)

subsection \<open>\<^verbatim>\<open>totalProductAmounts\<close> under \<^verbatim>\<open>productsUpdate\<close>\<close>

text \<open>
  C1 says that \<^verbatim>\<open>totalProductAmounts\<close> is the sum of the amounts of the tracker's products
  after every \<^verbatim>\<open>productsUpdate\<close>, the old amount of an updated product being subtracted
  first. The source subtracts \<^verbatim>\<open>productAmounts[i]\<close>, the new amount, and adds it again.
  In \<open>state2\<close> tracker 1 has the single product 1 of amount 50. Updating it to 20 leaves
  the total at 50 while the products sum to 20; updating it to 80 reverts in the
  subtraction.
\<close>

theorem productsUpdate_total_is_stale:
  "(case productsUpdate example_net (example_call 7) state2 1 [1] [20]
           [''oil''] [''bbl''] [''20''] of
      Inl _ \<Rightarrow> False
    | Inr s \<Rightarrow> td_totalProductAmounts (trackerData s 1) = 50 \<and>
               sumOfProductAmounts s 1 = 20 \<and>
               tm_productIds (trackerMappings s 1) = [1] \<and>
               pd_trackerId (productData s 1) = 1 \<and>
               pd_amount (productData s 1) = 20) \<and>
   productsUpdate example_net (example_call 7) state2 1 [1] [80] [''oil''] [''bbl''] [''80'']
     = Inl SubtractionOverflow"
  by (simp add: model_defs sample_defs state1_def state2_def sumOfProductAmounts_def)

subsection \<open>Tokens of type 2\<close>

text \<open>
  C4 expects a tracker with 100 units of a type 4 token and 30 units of a type 2 token to
  total 70. \<^verbatim>\<open>_addTokenAmounts\<close> subtracts the amount of a type 2 token from the amount the
  tracker holds of that same token, which is 0 for a token not yet tracked, so SafeMath
  reverts: neither \<^verbatim>\<open>track\<close> nor \<^verbatim>\<open>trackUpdate\<close> can put the type 2 token on the
  tracker. With the type 4 token alone the total is 100.
\<close>

theorem type2_token_reverts:
  "track example_net (example_call 7) (constructor 9) 1 2 [1, 2] [100, 30] 0 0 [] []
     = Inl SubtractionOverflow \<and>
   trackUpdate example_net (example_call 7) state1 1 [2] [30] 0 0 [] []
     = Inl SubtractionOverflow \<and>
   net_getTokenTypeId example_net 1 = 4 \<and> net_getTokenTypeId example_net 2 = 2 \<and>
   getTotalEmissions 1 state1 1 = Inr 100"
  by (simp add: model_defs sample_defs state1_def)

subsection \<open>\<^verbatim>\<open>transferProduct\<close>\<close>

lemma transferProduct_NotAudited:
  assumes "owners s (pd_trackerId (productData s productId)) \<noteq> 0"
    and "msg_sender c = owners s (pd_trackerId (productData s productId))"
    and "td_auditor (trackerData s (pd_trackerId (productData s productId))) = 0"
  shows "transferProduct c s productId productAmount trackee = Inl NotAudited"
  using assms by (simp add: transferProduct_def ownerOf_def isAudited_def Let_def)

lemma transferProduct_insufficient:
  assumes "owners s (pd_trackerId (productData s productId)) \<noteq> 0"
    and "\<not> (msg_sender c = owners s (pd_trackerId (productData s productId)) \<and>
            td_auditor (trackerData s (pd_trackerId (productData s productId))) = 0)"
    and "productBalance s productId (msg_sender c) + drawable c s productId \<le> MAX_UINT256"
  shows "transferProduct c s productId productAmount trackee = Inl InsufficientProductBalance
     \<longleftrightarrow> drawable c s productId + productBalance s productId (msg_sender c) \<le> productAmount"
proof (cases "msg_sender c = owners s (pd_trackerId (productData s productId))")
  case True
  with assms show ?thesis
    by (auto simp: transferProduct_def ownerOf_def isAudited_def Let_def drawable_def safe_add_def
        safe_sub_def)
next
  case False
  with assms show ?thesis
    by (auto simp: transferProduct_def ownerOf_def isAudited_def Let_def drawable_def safe_add_def
        safe_sub_def)
qed

lemma transferProduct_Inr:
  assumes "transferProduct c s productId productAmount trackee = Inr s'"
  shows "pd_available (productData s' productId) =
           pd_available (productData s productId) - min productAmount (drawable c s productId)"
    and "productBalance s' productId trackee =
           (if trackee = msg_sender c
            then productBalance s productId (msg_sender c) - (productAmount - drawable c s productId)
            else productBalance s productId trackee) + productAmount"
    and "trackee \<noteq> msg_sender c \<Longrightarrow> productBalance s' productId (msg_sender c) =
           productBalance s productId (msg_sender c) - (productAmount - drawable c s productId)"
proof -
  show "pd_available (productData s' productId) =
           pd_available (productData s productId) - min productAmount (drawable c s productId)"
    using assms
    by (auto simp: transferProduct_def ownerOf_def isAudited_def Let_def drawable_def safe_add_def
        safe_sub_def set_available_def set_balance_def and_then_eq_Inr and_then_eq_Inr_prod
        split: if_splits)
  show "productBalance s' productId trackee =
           (if trackee = msg_sender c
            then productBalance s productId (msg_sender c) - (productAmount - drawable c s productId)
            else productBalance s productId trackee) + productAmount"
    using assms
    by (auto simp: transferProduct_def ownerOf_def isAudited_def Let_def drawable_def safe_add_def
        safe_sub_def set_available_def set_balance_def and_then_eq_Inr and_then_eq_Inr_prod
        split: if_splits)
  show "trackee \<noteq> msg_sender c \<Longrightarrow> productBalance s' productId (msg_sender c) =
           productBalance s productId (msg_sender c) - (productAmount - drawable c s productId)"
    using assms
    by (auto simp: transferProduct_def ownerOf_def isAudited_def Let_def drawable_def safe_add_def
        safe_sub_def set_available_def set_balance_def and_then_eq_Inr and_then_eq_Inr_prod
        split: if_splits)
qed

text \<open>
  C6, as the source has it. Let the tracker of the product have an owner (\<^verbatim>\<open>ownerOf\<close>
  reverts otherwise).
  \<^item> A caller who owns that tracker while it is unaudited gets \<open>NotAudited\<close>, whatever the
    balances.
  \<^item> In every other case, and when the sum of the caller's balance and the drawable pool
    fits 256 bits, the call fails with \<open>InsufficientProductBalance\<close> exactly when
    \<open>available + callerBalance \<le> amount\<close>, where \<open>available\<close> is the product's pool
    for the owner of the tracker and 0 for anybody else.
  \<^item> A call that succeeds took \<open>min amount available\<close> from the pool and the rest from the
    caller's balance, and added the whole amount to the balance of the destination.
\<close>

theorem transferProduct_outcome:
  "(owners s (pd_trackerId (productData s productId)) \<noteq> 0 \<and>
    msg_sender c = owners s (pd_trackerId (productData s productId)) \<and>
    td_auditor (trackerData s (pd_trackerId (productData s productId))) = 0 \<longrightarrow>
      transferProduct c s productId productAmount trackee = Inl NotAudited) \<and>
   (owners s (pd_trackerId (productData s productId)) \<noteq> 0 \<and>
    \<not> (msg_sender c = owners s (pd_trackerId (productData s productId)) \<and>
       td_auditor (trackerData s (pd_trackerId (productData s productId))) = 0) \<and>
    productBalance s productId (msg_sender c) + drawable c s productId \<le> MAX_UINT256 \<longrightarrow>
      (transferProduct c s productId productAmount trackee = Inl InsufficientProductBalance
         \<longleftrightarrow> drawable c s productId + productBalance s productId (msg_sender c)
               \<le> productAmount)) \<and>
   (transferProduct c s productId productAmount trackee = Inr s' \<longrightarrow>
      pd_available (productData s' productId) =
        pd_available (productData s productId) - min productAmount (drawable c s productId) \<and>
      productBalance s' productId trackee =
        (if trackee = msg_sender c
         then productBalance s productId (msg_sender c)
                - (productAmount - drawable c s productId)
         else productBalance s productId trackee) + productAmount \<and>
      (trackee \<noteq> msg_sender c \<longrightarrow>
         productBalance s' productId (msg_sender c) =
           productBalance s productId (msg_sender c)
             - (productAmount - drawable c s productId)))"
  using transferProduct_NotAudited [of s productId c productAmount trackee]
    transferProduct_insufficient [of s productId c productAmount trackee]
    transferProduct_Inr [of c s productId productAmount trackee s']
  by blast

theorem transferProduct_outcome_witness:
  "owners state2 (pd_trackerId (productData state2 1)) \<noteq> 0 \<and>
   msg_sender (example_call 1) = owners state2 (pd_trackerId (productData state2 1)) \<and>
   td_auditor (trackerData state2 (pd_trackerId (productData state2 1))) = 0 \<and>
   transferProduct (example_call 1) state2 1 30 5 = Inl NotAudited \<and>
   owners state3 (pd_trackerId (productData state3 1)) \<noteq> 0 \<and>
   td_auditor (trackerData state3 (pd_trackerId (productData state3 1))) \<noteq> 0 \<and>
   productBalance state3 1 (msg_sender (example_call 1)) + drawable (example_call 1) state3 1
     \<le> MAX_UINT256 \<and>
   drawable (example_call 1) state3 1 + productBalance state3 1 (msg_sender (example_call 1))
     \<le> 50 \<and>
   transferProduct (example_call 1) state3 1 50 5 = Inl InsufficientProductBalance \<and>
   transferProduct (example_call 1) state3 1 30 5 = Inr state4 \<and>
   pd_available (productData state3 1) = 50 \<and> pd_available (productData state4 1) = 20 \<and>
   productBalance state3 1 5 = 0 \<and> productBalance state4 1 5 = 30"
  using transferProduct_outcome [of state2 1 "example_call 1" 30 5 state4]
    transferProduct_outcome [of state3 1 "example_call 1" 50 5 state4]
    transferProduct_outcome [of state3 1 "example_call 1" 30 5 state4]
    transferProduct_reaches_state4
  by (simp add: state_defs sample_defs drawable_def MAX_UINT256_def)

text \<open>
  The claim as it is worded counts the pool as 0 for the owner of an unaudited tracker and
  expects \<open>InsufficientProductBalance\<close>. In \<open>state2\<close> address 1 owns the unaudited tracker
  1 and has no balance of product 1: the call fails with \<open>NotAudited\<close>. For product 9,
  which no tracker owns, the call fails in \<^verbatim>\<open>ownerOf\<close>.
\<close>

theorem transferProduct_outcome_counterexample:
  "msg_sender (example_call 1) = owners state2 (pd_trackerId (productData state2 1)) \<and>
   td_auditor (trackerData state2 (pd_trackerId (productData state2 1))) = 0 \<and>
   0 + productBalance state2 1 (msg_sender (example_call 1)) \<le> 30 \<and>
   transferProduct (example_call 1) state2 1 30 5 \<noteq> Inl InsufficientProductBalance \<and>
   transferProduct (example_call 1) state2 1 30 5 = Inl NotAudited \<and>
   0 + productBalance state2 9 (msg_sender (example_call 1)) \<le> 30 \<and>
   transferProduct (example_call 1) state2 9 30 5 = Inl NonexistentToken"
  by (simp add: model_defs state_defs sample_defs)

subsection \<open>Locking tokens in \<^verbatim>\<open>_trackTokens\<close>\<close>

lemma submitted_Nil [simp]: "submitted [] t = 0"
  by (simp add: submitted_def)

lemma submitted_Cons [simp]:
  "submitted ((t0, a0) # rest) t = (if t0 = t then a0 else 0) + submitted rest t"
  by (simp add: submitted_def)

lemma submitted_once:
  "distinct (map fst pairs) \<Longrightarrow> (t, a) \<in> set pairs \<Longrightarrow> submitted pairs t = a"
proof (induction pairs)
  case Nil
  then show ?case by simp
next
  case (Cons p pairs)
  obtain t0 a0 where p: "p = (t0, a0)" by (cases p)
  show ?case
  proof (cases "t0 = t")
    case True
    with Cons.prems p have "a0 = a" by (auto simp: image_iff)
    moreover from True Cons.prems p have "submitted pairs t = 0"
      by (auto simp: submitted_def filter_empty_conv image_iff)
    ultimately show ?thesis using p True by simp
  next
    case False
    with Cons p show ?thesis by auto
  qed
qed

lemma addTokenAmounts_cases:
  "addTokenAmounts tokenData tokenId amountAdd index tokenTypeId = Inl AdditionOverflow \<or>
   addTokenAmounts tokenData tokenId amountAdd index tokenTypeId = Inl SubtractionOverflow \<or>
   succeeds (addTokenAmounts tokenData tokenId amountAdd index tokenTypeId)"
  by (simp add: addTokenAmounts_def safe_add_def safe_sub_def)

lemma trackTokens_loop_Cons_Inr:
  assumes "trackTokens_loop n c slot s ((t, a) # rest) = Inr s'"
  shows "\<exists>tm.
    (msg_sender c = netAddress s \<or> lockedAmount s t + a \<le> available_of n c t) \<and>
    lockedAmount s t + a \<le> MAX_UINT256 \<and>
    addTokenAmounts (trackerMappings s slot) t a (tm_idIndex (trackerMappings s slot) t)
       (net_getTokenTypeId n t) = Inr tm \<and>
    trackTokens_loop n c slot
       (s\<lparr>lockedAmount := (lockedAmount s)(t := lockedAmount s t + a),
          trackerMappings := (trackerMappings s)(slot := tm)\<rparr>) rest = Inr s'"
proof -
  from assms have chk: "msg_sender c = netAddress s \<or> lockedAmount s t + a \<le> available_of n c t"
    by (auto simp: Let_def and_then_eq_Inr safe_sub_def available_of_def split: if_splits)
  from assms have add: "lockedAmount s t + a \<le> MAX_UINT256"
    by (auto simp: Let_def and_then_eq_Inr safe_add_def split: if_splits)
  from assms add obtain tm where
    "addTokenAmounts (trackerMappings s slot) t a (tm_idIndex (trackerMappings s slot) t)
       (net_getTokenTypeId n t) = Inr tm"
    "trackTokens_loop n c slot
       (s\<lparr>lockedAmount := (lockedAmount s)(t := lockedAmount s t + a),
          trackerMappings := (trackerMappings s)(slot := tm)\<rparr>) rest = Inr s'"
    by (auto simp: Let_def and_then_eq_Inr safe_add_def split: if_splits)
  with chk add show ?thesis by blast
qed

lemma trackTokens_loop_locked:
  "trackTokens_loop n c slot s pairs = Inr s' \<Longrightarrow>
   lockedAmount s' t = lockedAmount s t + submitted pairs t"
proof (induction pairs arbitrary: s)
  case Nil
  then show ?case by simp
next
  case (Cons p pairs)
  obtain t0 a0 where p: "p = (t0, a0)" by (cases p)
  from Cons.prems have "trackTokens_loop n c slot s ((t0, a0) # pairs) = Inr s'"
    unfolding p .
  from trackTokens_loop_Cons_Inr[OF this] obtain tm where
    rest: "trackTokens_loop n c slot
       (s\<lparr>lockedAmount := (lockedAmount s)(t0 := lockedAmount s t0 + a0),
          trackerMappings := (trackerMappings s)(slot := tm)\<rparr>) pairs = Inr s'"
    by blast
  from Cons.IH[OF rest] p show ?case by simp
qed

lemma trackTokens_loop_netAddress:
  "trackTokens_loop n c slot s pairs = Inr s' \<Longrightarrow> netAddress s' = netAddress s"
proof (induction pairs arbitrary: s)
  case Nil
  then show ?case by simp
next
  case (Cons p pairs)
  obtain t0 a0 where p: "p = (t0, a0)" by (cases p)
  from Cons.prems have "trackTokens_loop n c slot s ((t0, a0) # pairs) = Inr s'"
    unfolding p .
  from trackTokens_loop_Cons_Inr[OF this] obtain tm where
    rest: "trackTokens_loop n c slot
       (s\<lparr>lockedAmount := (lockedAmount s)(t0 := lockedAmount s t0 + a0),
          trackerMappings := (trackerMappings s)(slot := tm)\<rparr>) pairs = Inr s'"
    by blast
  from Cons.IH[OF rest] show ?case by simp
qed

lemma trackTokens_loop_overdraw:
  "msg_sender c \<noteq> netAddress s \<Longrightarrow> (t, a) \<in> set pairs \<Longrightarrow>
   available_of n c t < lockedAmount s t + a \<Longrightarrow>
   \<not> succeeds (trackTokens_loop n c slot s pairs)"
proof (induction pairs arbitrary: s)
  case Nil
  then show ?case by simp
next
  case (Cons p pairs)
  obtain t0 a0 where p: "p = (t0, a0)" by (cases p)
  show ?case
  proof
    assume "succeeds (trackTokens_loop n c slot s (p # pairs))"
    then obtain s' where ok: "trackTokens_loop n c slot s ((t0, a0) # pairs) = Inr s'"
      unfolding p succeeds_iff by blast
    from trackTokens_loop_Cons_Inr[OF ok] obtain tm where
      chk: "msg_sender c = netAddress s \<or> lockedAmount s t0 + a0 \<le> available_of n c t0"
      and rest: "trackTokens_loop n c slot
         (s\<lparr>lockedAmount := (lockedAmount s)(t0 := lockedAmount s t0 + a0),
            trackerMappings := (trackerMappings s)(slot := tm)\<rparr>) pairs = Inr s'"
      by blast
    let ?s1 = "s\<lparr>lockedAmount := (lockedAmount s)(t0 := lockedAmount s t0 + a0),
            trackerMappings := (trackerMappings s)(slot := tm)\<rparr>"
    from chk Cons.prems(1) have head: "lockedAmount s t0 + a0 \<le> available_of n c t0" by simp
    show False
    proof (cases "(t, a) = (t0, a0)")
      case True
      with head Cons.prems(3) show False by simp
    next
      case False
      with Cons.prems(2) p have mem: "(t, a) \<in> set pairs" by auto
      have "available_of n c t < lockedAmount ?s1 t + a"
        using Cons.prems(3) by auto
      from Cons.IH[OF _ mem this] Cons.prems(1) rest show False by simp
    qed
  qed
qed

lemma trackTokens_loop_append:
  "trackTokens_loop n c slot s (xs @ ys) =
     and_then (trackTokens_loop n c slot s xs) (\<lambda>s1. trackTokens_loop n c slot s1 ys)"
proof (induction xs arbitrary: s)
  case Nil
  then show ?case by simp
next
  case (Cons p xs)
  obtain t0 a0 where p: "p = (t0, a0)" by (cases p)
  show ?case
    unfolding p
    by (simp add: Let_def Cons.IH and_then_def split: sum.splits)
qed

lemma trackTokens_loop_InsufficientAvailable:
  assumes "msg_sender c \<noteq> netAddress s"
    and "lockedAmount s t \<le> available_of n c t"
    and "available_of n c t < lockedAmount s t + a"
  shows "trackTokens_loop n c slot s ((t, a) # rest) = Inl InsufficientAvailable"
proof -
  from assms(2,3) have "\<not> a \<le> available_of n c t - lockedAmount s t" by arith
  with assms(1,2) show ?thesis
    by (simp add: Let_def safe_sub_def available_of_def)
qed

lemma trackTokens_loop_locked_mono:
  "trackTokens_loop n c slot s pairs = Inr s' \<Longrightarrow> lockedAmount s t \<le> lockedAmount s' t"
  by (simp add: trackTokens_loop_locked)

text \<open>
  C3, as the source has it.
  \<^item> A call of \<^verbatim>\<open>_trackTokens\<close> that succeeds raised \<^verbatim>\<open>lockedAmount\<close> of every token id by
    the sum of the amounts submitted for that id; when the submitted ids are distinct that
    is the submitted amount of each pair.
  \<^item> A call by anybody but the network contract that submits a pair whose amount plus
    \<^verbatim>\<open>lockedAmount\<close> exceeds the available amount (the amount is above
    \<open>available - lockedAmount\<close>) does not succeed.
  \<^item> Its error is \<open>InsufficientAvailable\<close> when the checks before that pair pass: the
    trackee is an industry account, the caller an authorized auditor, the arrays have the
    same length, the pairs before it go through, and \<^verbatim>\<open>lockedAmount\<close> is not already above
    the available amount when the pair is reached.
\<close>

theorem trackTokens_locks:
  "(trackTokens n c s key tokenIds tokenAmounts = Inr s' \<longrightarrow>
      (\<forall>tokenId. lockedAmount s' tokenId =
         lockedAmount s tokenId + submitted (zip tokenIds tokenAmounts) tokenId) \<and>
      (\<forall>tokenId amount. distinct tokenIds \<and> (tokenId, amount) \<in> set (zip tokenIds tokenAmounts)
         \<longrightarrow> lockedAmount s' tokenId = lockedAmount s tokenId + amount)) \<and>
   (msg_sender c \<noteq> netAddress s \<and> (tokenId, amount) \<in> set (zip tokenIds tokenAmounts) \<and>
    available_of n c tokenId < lockedAmount s tokenId + amount \<longrightarrow>
      \<not> succeeds (trackTokens n c s key tokenIds tokenAmounts)) \<and>
   (msg_sender c \<noteq> netAddress s \<and>
    net_isIndustry n (td_trackee (trackerData s (td_trackerId (trackerData s key)))) \<and>
    isAuditor_check n c s (td_trackee (trackerData s key)) \<and>
    length tokenIds = length tokenAmounts \<and>
    zip tokenIds tokenAmounts = before @ (tokenId, amount) # rest \<and>
    trackTokens_loop n c (td_trackerId (trackerData s key)) s before = Inr s1 \<and>
    lockedAmount s1 tokenId \<le> available_of n c tokenId \<and>
    available_of n c tokenId < lockedAmount s tokenId + amount \<longrightarrow>
      trackTokens n c s key tokenIds tokenAmounts = Inl InsufficientAvailable)"
proof (intro conjI impI allI)
  fix t
  assume ok: "trackTokens n c s key tokenIds tokenAmounts = Inr s'"
  then have loop: "trackTokens_loop n c (td_trackerId (trackerData s key)) s
      (zip tokenIds tokenAmounts) = Inr s'"
    by (auto simp: trackTokens_def Let_def isAuditor_require_def split: if_splits)
  from trackTokens_loop_locked[OF loop]
  show "lockedAmount s' t = lockedAmount s t + submitted (zip tokenIds tokenAmounts) t" .
next
  fix t a
  assume ok: "trackTokens n c s key tokenIds tokenAmounts = Inr s'"
    and once: "distinct tokenIds \<and> (t, a) \<in> set (zip tokenIds tokenAmounts)"
  from ok have loop: "trackTokens_loop n c (td_trackerId (trackerData s key)) s
      (zip tokenIds tokenAmounts) = Inr s'"
    and len: "length tokenAmounts = length tokenIds"
    by (auto simp: trackTokens_def Let_def isAuditor_require_def split: if_splits)
  from once len have "distinct (map fst (zip tokenIds tokenAmounts))" by simp
  from submitted_once[OF this] once
  have "submitted (zip tokenIds tokenAmounts) t = a" by simp
  with trackTokens_loop_locked[OF loop, of t]
  show "lockedAmount s' t = lockedAmount s t + a" by simp
next
  assume h: "msg_sender c \<noteq> netAddress s \<and> (tokenId, amount) \<in> set (zip tokenIds tokenAmounts) \<and>
    available_of n c tokenId < lockedAmount s tokenId + amount"
  then have "\<not> succeeds (trackTokens_loop n c (td_trackerId (trackerData s key)) s
      (zip tokenIds tokenAmounts))"
    using trackTokens_loop_overdraw by blast
  then show "\<not> succeeds (trackTokens n c s key tokenIds tokenAmounts)"
    by (simp add: trackTokens_def Let_def isAuditor_require_def)
next
  assume h: "msg_sender c \<noteq> netAddress s \<and>
    net_isIndustry n (td_trackee (trackerData s (td_trackerId (trackerData s key)))) \<and>
    isAuditor_check n c s (td_trackee (trackerData s key)) \<and>
    length tokenIds = length tokenAmounts \<and>
    zip tokenIds tokenAmounts = before @ (tokenId, amount) # rest \<and>
    trackTokens_loop n c (td_trackerId (trackerData s key)) s before = Inr s1 \<and>
    lockedAmount s1 tokenId \<le> available_of n c tokenId \<and>
    available_of n c tokenId < lockedAmount s tokenId + amount"
  let ?slot = "td_trackerId (trackerData s key)"
  from h have pre: "trackTokens_loop n c ?slot s before = Inr s1" by simp
  from trackTokens_loop_locked_mono[OF pre, of tokenId] h
  have over: "available_of n c tokenId < lockedAmount s1 tokenId + amount" by simp
  from trackTokens_loop_netAddress[OF pre] h have "msg_sender c \<noteq> netAddress s1" by simp
  from trackTokens_loop_InsufficientAvailable[OF this _ over] h
  have "trackTokens_loop n c ?slot s1 ((tokenId, amount) # rest) = Inl InsufficientAvailable"
    by simp
  with pre h have "trackTokens_loop n c ?slot s (zip tokenIds tokenAmounts)
      = Inl InsufficientAvailable"
    by (simp add: trackTokens_loop_append)
  with h show "trackTokens n c s key tokenIds tokenAmounts = Inl InsufficientAvailable"
    by (simp add: trackTokens_def Let_def isAuditor_require_def)
qed


theorem trackTokens_locks_witness:
  "succeeds (trackTokens example_net (example_call 7) state1 1 [5, 6] [10, 20]) \<and>
   distinct [5 :: uint256, 6] \<and> (5, 10) \<in> set (zip [5 :: uint256, 6] [10 :: uint256, 20]) \<and>
   lockedAmount (projr (trackTokens example_net (example_call 7) state1 1 [5, 6] [10, 20])) 5
     = lockedAmount state1 5 + 10 \<and>
   msg_sender (example_call 7) \<noteq> netAddress state1 \<and>
   (5, 2000) \<in> set (zip [5 :: uint256] [2000 :: uint256]) \<and>
   available_of example_net (example_call 7) 5 < lockedAmount state1 5 + 2000 \<and>
   net_isIndustry example_net
     (td_trackee (trackerData state1 (td_trackerId (trackerData state1 1)))) \<and>
   isAuditor_check example_net (example_call 7) state1 (td_trackee (trackerData state1 1)) \<and>
   zip [5 :: uint256] [2000 :: uint256] = [] @ (5, 2000) # [] \<and>
   trackTokens_loop example_net (example_call 7) (td_trackerId (trackerData state1 1)) state1 []
     = Inr state1 \<and>
   lockedAmount state1 5 \<le> available_of example_net (example_call 7) 5 \<and>
   trackTokens example_net (example_call 7) state1 1 [5] [2000] = Inl InsufficientAvailable"
  using trackTokens_locks [where n = example_net and c = "example_call 7" and s = state1
      and key = 1 and tokenIds = "[5, 6]" and tokenAmounts = "[10, 20]"
      and s' = "projr (trackTokens example_net (example_call 7) state1 1 [5, 6] [10, 20])"
      and tokenId = 5 and amount = 10 and before = "[]" and rest = "[]" and ?s1.0 = state1]
    trackTokens_locks [where n = example_net and c = "example_call 7" and s = state1
      and key = 1 and tokenIds = "[5]" and tokenAmounts = "[2000]"
      and s' = state1 and tokenId = 5 and amount = 2000 and before = "[]" and rest = "[]"
      and ?s1.0 = state1]
  by (simp add: model_defs state1_def sample_defs available_of_def)

text \<open>
  The claim as it is worded fails twice. The pairs \<open>(5, 10)\<close> and \<open>(5, 20)\<close> in one call
  raise \<^verbatim>\<open>lockedAmount[5]\<close> by 30, not by the 10 of the first pair. And a caller who is no
  auditor and asks for 2000 of the 1000 available units fails with \<open>NotAuditor\<close>.
\<close>

theorem trackTokens_locks_counterexample:
  "(5, 10) \<in> set (zip [5 :: uint256, 5] [10 :: uint256, 20]) \<and>
   succeeds (trackTokens example_net (example_call 7) state1 1 [5, 5] [10, 20]) \<and>
   lockedAmount state1 5 = 0 \<and>
   lockedAmount (projr (trackTokens example_net (example_call 7) state1 1 [5, 5] [10, 20])) 5
     = 30 \<and>
   (5, 2000) \<in> set (zip [5 :: uint256] [2000 :: uint256]) \<and>
   available_of example_net (example_call 4) 5 - lockedAmount state1 5 < 2000 \<and>
   msg_sender (example_call 4) \<noteq> netAddress state1 \<and>
   trackTokens example_net (example_call 4) state1 1 [5] [2000] = Inl NotAuditor"
  by (simp add: model_defs state1_def sample_defs available_of_def)

subsection \<open>The indexed sets of the lineage\<close>

lemma indexed_ok_empty [simp]: "indexed_ok [] (\<lambda>_. 0)"
  by (simp add: indexed_ok_def)

lemma indexed_ok_absent: "indexed_ok ids idx \<Longrightarrow> idx x = 0 \<Longrightarrow> x \<notin> set ids"
  by (auto simp: indexed_ok_def in_set_conv_nth)

lemma indexed_ok_push:
  assumes "indexed_ok ids idx" and "idx x = 0"
  shows "indexed_ok (ids @ [x]) (idx(x := length ids + 1))"
proof -
  from indexed_ok_absent[OF assms] have nin: "x \<notin> set ids" .
  have d: "distinct (ids @ [x])" using assms(1) nin by (simp add: indexed_ok_def)
  have pos: "\<forall>i < length (ids @ [x]). (idx(x := length ids + 1)) ((ids @ [x]) ! i) = i + 1"
  proof (intro allI impI)
    fix i assume i: "i < length (ids @ [x])"
    show "(idx(x := length ids + 1)) ((ids @ [x]) ! i) = i + 1"
    proof (cases "i < length ids")
      case True
      then have "ids ! i \<in> set ids" by simp
      with nin have "ids ! i \<noteq> x" by auto
      with True assms(1) show ?thesis by (simp add: nth_append indexed_ok_def)
    next
      case False
      with i have "i = length ids" by simp
      then show ?thesis by simp
    qed
  qed
  have mem: "\<forall>y. (idx(x := length ids + 1)) y \<noteq> 0 \<longrightarrow> y \<in> set (ids @ [x])"
    using assms(1) by (auto simp: indexed_ok_def)
  from d pos mem show ?thesis unfolding indexed_ok_def by blast
qed

lemma update_productsTracked_ok:
  assumes ok: "tracked_ok pt"
    and run: "update_productsTracked pt productId productAmount = Inr pt'"
  shows "tracked_ok pt' \<and> set (pt_productIds pt) \<subseteq> set (pt_productIds pt')"
proof -
  let ?v = "pt_amount pt productId + productAmount"
  from run have add: "safe_add (pt_amount pt productId) productAmount = Inr ?v"
    by (auto simp: update_productsTracked_def and_then_eq_Inr safe_add_def split: if_splits)
  show ?thesis
  proof (cases "0 < ?v")
    case True
    note pos = this
    show ?thesis
    proof (cases "pt_productIndex pt productId = 0")
      case True
      with run add pos have pt': "pt' = pt\<lparr>pt_amount := (pt_amount pt)(productId := ?v),
          pt_productIds := pt_productIds pt @ [productId],
          pt_productIndex := (pt_productIndex pt)(productId := length (pt_productIds pt) + 1)\<rparr>"
        by (simp add: update_productsTracked_def Let_def)
      from ok have "indexed_ok (pt_productIds pt) (pt_productIndex pt)"
        by (simp add: tracked_ok_def)
      from indexed_ok_push[OF this True]
      have "indexed_ok (pt_productIds pt @ [productId])
          ((pt_productIndex pt)(productId := length (pt_productIds pt) + 1))" .
      with ok pos show ?thesis
        by (auto simp: pt' tracked_ok_def)
    next
      case False
      with run add pos have pt': "pt' = pt\<lparr>pt_amount := (pt_amount pt)(productId := ?v)\<rparr>"
        by (simp add: update_productsTracked_def Let_def)
      with ok pos False show ?thesis
        by (auto simp: pt' tracked_ok_def)
    qed
  next
    case False
    then have zero: "pt_amount pt productId = 0" "productAmount = 0" by simp_all
    from ok have "\<forall>p. pt_productIndex pt p \<noteq> 0 \<longrightarrow> 0 < pt_amount pt p"
      unfolding tracked_ok_def by blast
    then have "pt_productIndex pt productId \<noteq> 0 \<longrightarrow> 0 < pt_amount pt productId"
      by blast
    with zero(1) have noidx: "pt_productIndex pt productId = 0" by simp
    from run add zero noidx have pt': "pt' = pt\<lparr>pt_amount := (pt_amount pt)(productId := 0)\<rparr>"
      by (simp add: update_productsTracked_def Let_def)
    with ok noidx zero show ?thesis
      by (auto simp: pt' tracked_ok_def)
  qed
qed



lemma update_productsTracked_succeeds:
  assumes ok: "tracked_ok pt" and fits: "pt_amount pt productId + productAmount \<le> MAX_UINT256"
  shows "succeeds (update_productsTracked pt productId productAmount)"
proof (cases "0 < pt_amount pt productId + productAmount")
  case True
  with fits show ?thesis
    by (simp add: update_productsTracked_def safe_add_def Let_def)
next
  case False
  then have zero: "pt_amount pt productId = 0" "productAmount = 0" by simp_all
  from ok have "\<forall>p. pt_productIndex pt p \<noteq> 0 \<longrightarrow> 0 < pt_amount pt p"
    unfolding tracked_ok_def by blast
  then have "pt_productIndex pt productId \<noteq> 0 \<longrightarrow> 0 < pt_amount pt productId"
    by blast
  with zero(1) have noidx: "pt_productIndex pt productId = 0" by simp
  from zero noidx show ?thesis
    by (simp add: update_productsTracked_def safe_add_def Let_def)
qed

lemma update_trackerIds_succeeds:
  assumes "tm_trackerIndex tm sourceTrackerId \<noteq> 0 \<longrightarrow>
        pt_productIds (tm_productsTracked tm sourceTrackerId) \<noteq> []"
  shows "succeeds (update_trackerIds tm sourceTrackerId (tm_trackerIndex tm sourceTrackerId))"
  using assms by (auto simp: update_trackerIds_def)

lemma updateTrackedProducts_mappings_split:
  assumes "update_productsTracked (tm_productsTracked tm src) productId productAmount = Inr pt"
  shows "updateTrackedProducts_mappings tm src productId productAmount =
     update_trackerIds (tm\<lparr>tm_productsTracked := (tm_productsTracked tm)(src := pt)\<rparr>)
       src (tm_trackerIndex tm src)"
  using assms by (simp add: updateTrackedProducts_mappings_def Let_def)



lemma updateTrackedProducts_mappings_succeeds:
  assumes ok: "lineage_ok tm"
    and fits: "pt_amount (tm_productsTracked tm src) productId + productAmount \<le> MAX_UINT256"
  shows "succeeds (updateTrackedProducts_mappings tm src productId productAmount)"
proof -
  from ok have old: "tracked_ok (tm_productsTracked tm src)"
    by (simp add: lineage_ok_def)
  from update_productsTracked_succeeds[OF old fits] obtain pt where
    pt: "update_productsTracked (tm_productsTracked tm src) productId productAmount = Inr pt"
    by (auto simp: succeeds_iff)
  let ?tm1 = "tm\<lparr>tm_productsTracked := (tm_productsTracked tm)(src := pt)\<rparr>"
  from update_productsTracked_ok[OF old pt]
  have grow: "set (pt_productIds (tm_productsTracked tm src)) \<subseteq> set (pt_productIds pt)"
    by simp
  from ok have "tm_trackerIndex tm src \<noteq> 0 \<longrightarrow> pt_productIds (tm_productsTracked tm src) \<noteq> []"
    by (simp add: lineage_ok_def)
  with grow have "tm_trackerIndex ?tm1 src \<noteq> 0 \<longrightarrow>
        pt_productIds (tm_productsTracked ?tm1 src) \<noteq> []"
    by auto
  from update_trackerIds_succeeds[OF this]
  show ?thesis
    by (simp add: updateTrackedProducts_mappings_split[OF pt])
qed







text \<open>
  The other public functions do not write the lineage: \<^verbatim>\<open>_trackTokens\<close> writes the token
  set of a tracker, \<^verbatim>\<open>productsUpdate\<close> its product array, the rest none of the mappings.
\<close>

lemma same_lineage_refl [simp]: "same_lineage s s"
  by (simp add: same_lineage_def)




















lemma lineage_grows_refl [simp]: "lineage_grows s s"
  by (simp add: lineage_grows_def)









text \<open>
  The swap branches are written for a storage in which an indexed product has the tracked
  amount 0; no run reaches one. On \<open>stale_state\<close> the call with amount 0 enters them:
  \<^verbatim>\<open>delete productIds[productIds.length - 1]\<close> zeroes the last slot and keeps the length,
  so the product array is \<open>[0]\<close> afterwards and the source tracker 3 stays in
  \<^verbatim>\<open>trackerIds\<close>.
\<close>

lemma swap_branch_on_stale_storage:
  "indexed_ok (tm_trackerIds (trackerMappings stale_state 2))
     (tm_trackerIndex (trackerMappings stale_state 2)) \<and>
   indexed_ok (pt_productIds (tm_productsTracked (trackerMappings stale_state 2) 3))
     (pt_productIndex (tm_productsTracked (trackerMappings stale_state 2) 3)) \<and>
   pt_productIds (tm_productsTracked (trackerMappings stale_state 2) 3) = [7] \<and>
   succeeds (updateTrackedProducts stale_state 2 3 7 0) \<and>
   pt_productIndex (tm_productsTracked
     (trackerMappings (projr (updateTrackedProducts stale_state 2 3 7 0)) 2) 3) 7 = 0 \<and>
   pt_productIds (tm_productsTracked
     (trackerMappings (projr (updateTrackedProducts stale_state 2 3 7 0)) 2) 3) = [0] \<and>
   tm_trackerIds (trackerMappings (projr (updateTrackedProducts stale_state 2 3 7 0)) 2) = [3] \<and>
   tm_trackerIndex (trackerMappings (projr (updateTrackedProducts stale_state 2 3 7 0)) 2) 3 = 1 \<and>
   \<not> indexed_ok
     (pt_productIds (tm_productsTracked
        (trackerMappings (projr (updateTrackedProducts stale_state 2 3 7 0)) 2) 3))
     (pt_productIndex (tm_productsTracked
        (trackerMappings (projr (updateTrackedProducts stale_state 2 3 7 0)) 2) 3))"
  by (simp add: model_defs sample_defs stale_state_def stale_lineage_def indexed_ok_def)


subsection \<open>The audit gate\<close>

lemma addTokenAmounts_succeeds:
  assumes "tokenTypeId = 4 \<longrightarrow> tm_amount tokenData tokenId + amountAdd \<le> MAX_UINT256"
    and "tokenTypeId = 2 \<longrightarrow> amountAdd \<le> tm_amount tokenData tokenId"
  shows "\<exists>tm. addTokenAmounts tokenData tokenId amountAdd index tokenTypeId = Inr tm \<and>
     (\<forall>t. t \<noteq> tokenId \<longrightarrow> tm_amount tm t = tm_amount tokenData t)"
  using assms by (simp add: addTokenAmounts_def safe_add_def safe_sub_def)

lemma trackTokens_loop_succeeds:
  "tokens_fit n c s slot pairs \<Longrightarrow> succeeds (trackTokens_loop n c slot s pairs)"
proof (induction pairs arbitrary: s)
  case Nil
  then show ?case by simp
next
  case (Cons p pairs)
  obtain t a where p: "p = (t, a)" by (cases p)
  from Cons.prems p have
    chk: "msg_sender c = netAddress s \<or> lockedAmount s t + a \<le> available_of n c t"
    and add: "lockedAmount s t + a \<le> MAX_UINT256"
    and t4: "net_getTokenTypeId n t = 4 \<longrightarrow> tm_amount (trackerMappings s slot) t + a \<le> MAX_UINT256"
    and t2: "net_getTokenTypeId n t = 2 \<longrightarrow> a \<le> tm_amount (trackerMappings s slot) t"
    and fresh: "t \<notin> fst ` set pairs"
    and dist: "distinct (map fst pairs)"
    by (auto simp: tokens_fit_def)
  from addTokenAmounts_succeeds[OF t4 t2, of "tm_idIndex (trackerMappings s slot) t"]
  obtain tm where
    tm: "addTokenAmounts (trackerMappings s slot) t a (tm_idIndex (trackerMappings s slot) t)
           (net_getTokenTypeId n t) = Inr tm"
    and keep: "\<forall>t'. t' \<noteq> t \<longrightarrow> tm_amount tm t' = tm_amount (trackerMappings s slot) t'"
    by blast
  let ?s1 = "s\<lparr>lockedAmount := (lockedAmount s)(t := lockedAmount s t + a),
               trackerMappings := (trackerMappings s)(slot := tm)\<rparr>"
  have step: "trackTokens_loop n c slot s ((t, a) # pairs) = trackTokens_loop n c slot ?s1 pairs"
  proof (cases "msg_sender c = netAddress s")
    case True
    with add tm show ?thesis by (simp add: Let_def safe_add_def)
  next
    case False
    with chk have "lockedAmount s t + a \<le> available_of n c t" by simp
    then have "lockedAmount s t \<le> fst (net_getAvailableAndRetired n (this_address c) t)"
      "a \<le> fst (net_getAvailableAndRetired n (this_address c) t) - lockedAmount s t"
      by (simp_all add: available_of_def)
    with False add tm show ?thesis by (simp add: Let_def safe_add_def safe_sub_def)
  qed
  have "tokens_fit n c ?s1 slot pairs"
    unfolding tokens_fit_def
  proof (intro conjI ballI)
    show "distinct (map fst pairs)" by (rule dist)
  next
    fix q assume q: "q \<in> set pairs"
    obtain t' a' where q': "q = (t', a')" by (cases q)
    from q q' fresh have ne: "t' \<noteq> t" by force
    from Cons.prems q q' have old:
      "(msg_sender c = netAddress s \<or> lockedAmount s t' + a' \<le> available_of n c t') \<and>
        lockedAmount s t' + a' \<le> MAX_UINT256 \<and>
        (net_getTokenTypeId n t' = 4 \<longrightarrow>
           tm_amount (trackerMappings s slot) t' + a' \<le> MAX_UINT256) \<and>
        (net_getTokenTypeId n t' = 2 \<longrightarrow> a' \<le> tm_amount (trackerMappings s slot) t')"
      by (auto simp: tokens_fit_def)
    from old ne keep show "case q of (tokenId, amount) \<Rightarrow>
        (msg_sender c = netAddress ?s1 \<or>
         lockedAmount ?s1 tokenId + amount \<le> available_of n c tokenId) \<and>
        lockedAmount ?s1 tokenId + amount \<le> MAX_UINT256 \<and>
        (net_getTokenTypeId n tokenId = 4 \<longrightarrow>
           tm_amount (trackerMappings ?s1 slot) tokenId + amount \<le> MAX_UINT256) \<and>
        (net_getTokenTypeId n tokenId = 2 \<longrightarrow>
           amount \<le> tm_amount (trackerMappings ?s1 slot) tokenId)"
      by (simp add: q')
  qed
  from Cons.IH[OF this] step p show ?case by simp
qed

lemma tokens_fit_cong:
  assumes "netAddress s' = netAddress s" "lockedAmount s' = lockedAmount s"
    "trackerMappings s' = trackerMappings s"
  shows "tokens_fit n c s' slot pairs = tokens_fit n c s slot pairs"
  using assms by (simp add: tokens_fit_def)

lemma trackUpdate_succeeds:
  assumes na: "td_auditor (trackerData s trackerId) = 0"
    and pre: "trackUpdate_pre n c s trackerId tokenIds tokenAmounts"
  shows "succeeds (trackUpdate n c s trackerId tokenIds tokenAmounts
                     fromDate thruDate description metadata)"
proof -
  let ?s1 = "s\<lparr>trackerData := (trackerData s)(trackerId :=
               set_fields ((trackerData s trackerId)\<lparr>td_dateUpdated := block_timestamp c\<rparr>)
                 fromDate thruDate description metadata)\<rparr>"
  have "tokens_fit n c ?s1 trackerId (zip tokenIds tokenAmounts)
      = tokens_fit n c s trackerId (zip tokenIds tokenAmounts)"
    by (rule tokens_fit_cong) simp_all
  with pre have fit: "tokens_fit n c ?s1 trackerId (zip tokenIds tokenAmounts)"
    by (simp add: trackUpdate_pre_def)
  from pre have aud: "isAuditor_check n c ?s1 (td_trackee (trackerData s trackerId))"
    by (simp add: trackUpdate_pre_def isAuditor_check_def)
  from pre aud trackTokens_loop_succeeds[OF fit]
  have "succeeds (trackTokens n c ?s1 trackerId tokenIds tokenAmounts)"
    by (simp add: trackTokens_def trackUpdate_pre_def isAuditor_require_def Let_def)
  with na pre show ?thesis
    by (simp add: trackUpdate_def notAudited_def trackerExists_def trackUpdate_pre_def Let_def)
qed


lemma productsUpdate_step_succeeds:
  assumes own: "0 < pid \<longrightarrow> pd_trackerId (productData s pid) = trackerId \<and>
        pd_auditor (productData s pid) = msg_sender c \<and>
        amount \<le> td_totalProductAmounts (trackerData s trackerId)"
    and fits: "td_totalProductAmounts (trackerData s trackerId) + amount \<le> MAX_UINT256"
  shows "\<exists>s1. productsUpdate_step c trackerId s (pid, amount, name, unit, unitAmount) = Inr s1 \<and>
     td_totalProductAmounts (trackerData s trackerId)
       \<le> td_totalProductAmounts (trackerData s1 trackerId) \<and>
     td_totalProductAmounts (trackerData s1 trackerId)
       \<le> td_totalProductAmounts (trackerData s trackerId) + amount \<and>
     (\<forall>q. pd_trackerId (productData s q) = trackerId \<and>
          pd_auditor (productData s q) = msg_sender c \<longrightarrow>
          pd_trackerId (productData s1 q) = trackerId \<and>
          pd_auditor (productData s1 q) = msg_sender c)"
proof (cases "0 < pid")
  case True
  with own fits show ?thesis
    by (simp add: productsUpdate_step_def safe_sub_def safe_add_def set_total_def Let_def)
next
  case False
  with fits show ?thesis
    by (simp add: productsUpdate_step_def safe_add_def set_total_def Let_def)
qed

lemma productsUpdate_loop_succeeds:
  "products_fit c s trackerId entries \<Longrightarrow>
   succeeds (productsUpdate_loop c trackerId s entries)"
proof (induction entries arbitrary: s)
  case Nil
  then show ?case by simp
next
  case (Cons entry entries)
  obtain pid amount name unit unitAmount where
    entry: "entry = (pid, amount, name, unit, unitAmount)" by (cases entry)
  let ?total = "td_totalProductAmounts (trackerData s trackerId)"
  let ?rest = "sum_list (map (\<lambda>entry. fst (snd entry)) entries)"
  from Cons.prems entry have
    own: "0 < pid \<longrightarrow> pd_trackerId (productData s pid) = trackerId \<and>
        pd_auditor (productData s pid) = msg_sender c \<and> amount \<le> ?total"
    and sum: "?total + (amount + ?rest) \<le> MAX_UINT256"
    and others: "\<forall>e \<in> set entries. 0 < fst e \<longrightarrow>
        pd_trackerId (productData s (fst e)) = trackerId \<and>
        pd_auditor (productData s (fst e)) = msg_sender c \<and>
        fst (snd e) \<le> ?total"
    by (simp_all add: products_fit_def)
  from sum have fits: "?total + amount \<le> MAX_UINT256" by simp
  from productsUpdate_step_succeeds[OF own fits, of name unit unitAmount] obtain s1 where
    step: "productsUpdate_step c trackerId s (pid, amount, name, unit, unitAmount) = Inr s1"
    and lo: "?total \<le> td_totalProductAmounts (trackerData s1 trackerId)"
    and hi: "td_totalProductAmounts (trackerData s1 trackerId) \<le> ?total + amount"
    and keep: "\<forall>q. pd_trackerId (productData s q) = trackerId \<and>
          pd_auditor (productData s q) = msg_sender c \<longrightarrow>
          pd_trackerId (productData s1 q) = trackerId \<and>
          pd_auditor (productData s1 q) = msg_sender c"
    by blast
  have "products_fit c s1 trackerId entries"
    unfolding products_fit_def
  proof (intro conjI ballI impI)
    fix e assume e: "e \<in> set entries" and pos: "0 < fst e"
    from others e pos have old: "pd_trackerId (productData s (fst e)) = trackerId"
      "pd_auditor (productData s (fst e)) = msg_sender c" "fst (snd e) \<le> ?total"
      by auto
    from keep old(1,2) show "pd_trackerId (productData s1 (fst e)) = trackerId"
      and "pd_auditor (productData s1 (fst e)) = msg_sender c" by auto
    from old(3) lo show "fst (snd e) \<le> td_totalProductAmounts (trackerData s1 trackerId)"
      by simp
  next
    from hi sum show "td_totalProductAmounts (trackerData s1 trackerId) + ?rest \<le> MAX_UINT256"
      by simp
  qed
  from Cons.IH[OF this] step entry show ?case by simp
qed

lemma products_fit_cong:
  assumes "productData s' = productData s"
    "td_totalProductAmounts (trackerData s' trackerId) = td_totalProductAmounts (trackerData s trackerId)"
  shows "products_fit c s' trackerId entries = products_fit c s trackerId entries"
  using assms by (simp add: products_fit_def)

lemma productsUpdate_succeeds:
  assumes na: "td_auditor (trackerData s trackerId) = 0"
    and pre: "productsUpdate_pre n c s trackerId productIds productAmounts productNames
                productUnits productUnitAmounts"
  shows "succeeds (productsUpdate n c s trackerId productIds productAmounts productNames
                     productUnits productUnitAmounts)"
proof -
  from pre have "products_fit c s trackerId
       (zip productIds (zip productAmounts
         (zip productNames (zip productUnits productUnitAmounts))))"
    by (simp add: productsUpdate_pre_def)
  from productsUpdate_loop_succeeds[OF this] na pre show ?thesis
    by (simp add: productsUpdate_def productsUpdate_pre_def notAudited_def trackerExists_def
        isAuditor_modifier_def isAuditor_require_def)
qed

lemma trackProduct_succeeds:
  assumes na: "td_auditor (trackerData s trackerId) = 0"
    and pre: "trackProduct_pre n c s trackerId sourceTrackerId productId productAmount"
  shows "succeeds (trackProduct n c s trackerId sourceTrackerId productId productAmount)"
proof -
  let ?sender = "msg_sender c"
  let ?s1 = "set_balance s productId ?sender (productBalance s productId ?sender - productAmount)"
  from pre have ao: "isAuditorOrOwner n c s trackerId ?sender = Inr ()"
    by (auto simp: trackProduct_pre_def isAuditorOrOwner_def ownerOf_def)
  from pre have ok: "lineage_ok (trackerMappings ?s1 trackerId)"
    and fits: "pt_amount (tm_productsTracked (trackerMappings ?s1 trackerId) sourceTrackerId)
        productId + productAmount \<le> MAX_UINT256"
    by (simp_all add: trackProduct_pre_def set_balance_def)
  from updateTrackedProducts_mappings_succeeds[OF ok fits]
  have "succeeds (updateTrackedProducts ?s1 trackerId sourceTrackerId productId productAmount)"
    by (auto simp: updateTrackedProducts_def succeeds_iff)
  with na pre ao show ?thesis
    by (simp add: trackProduct_def notAudited_def trackerExists_def trackProduct_pre_def
        safe_sub_def)
qed

lemma removeAudit_Inr:
  assumes "removeAudit n c s trackerId = Inr s'"
  shows "s' = s\<lparr>trackerData := (trackerData s)(trackerId :=
                    (trackerData s trackerId)\<lparr>td_auditor := 0\<rparr>)\<rparr>"
  using assms
  by (auto simp: removeAudit_def and_then_eq_Inr)

text \<open>
  While the \<^verbatim>\<open>auditor\<close> field of a tracker is set, \<^verbatim>\<open>trackUpdate\<close>, \<^verbatim>\<open>productsUpdate\<close> and
  \<^verbatim>\<open>trackProduct\<close> on it fail in the modifier \<^verbatim>\<open>notAudited\<close>, before any write. After a
  \<^verbatim>\<open>removeAudit\<close> that went through the field is clear, and each of the three operations
  succeeds under the conditions written out above.
\<close>

lemma audit_gate_sufficient:
  "(td_auditor (trackerData s trackerId) \<noteq> 0 \<longrightarrow>
      trackUpdate n c s trackerId tokenIds tokenAmounts fromDate thruDate description metadata
        = Inl AlreadyAudited \<and>
      productsUpdate n c s trackerId productIds productAmounts productNames productUnits
        productUnitAmounts = Inl AlreadyAudited \<and>
      trackProduct n c s trackerId sourceTrackerId productId productAmount
        = Inl AlreadyAudited) \<and>
   (removeAudit n c0 s trackerId = Inr s' \<longrightarrow>
      td_auditor (trackerData s' trackerId) = 0 \<and>
      (trackUpdate_pre n c s' trackerId tokenIds tokenAmounts \<longrightarrow>
         succeeds (trackUpdate n c s' trackerId tokenIds tokenAmounts
                     fromDate thruDate description metadata)) \<and>
      (productsUpdate_pre n c s' trackerId productIds productAmounts productNames productUnits
         productUnitAmounts \<longrightarrow>
         succeeds (productsUpdate n c s' trackerId productIds productAmounts productNames
                     productUnits productUnitAmounts)) \<and>
      (trackProduct_pre n c s' trackerId sourceTrackerId productId productAmount \<longrightarrow>
         succeeds (trackProduct n c s' trackerId sourceTrackerId productId productAmount)))"
proof (intro conjI impI)
  assume "td_auditor (trackerData s trackerId) \<noteq> 0"
  then show "trackUpdate n c s trackerId tokenIds tokenAmounts fromDate thruDate description
      metadata = Inl AlreadyAudited"
    and "productsUpdate n c s trackerId productIds productAmounts productNames productUnits
        productUnitAmounts = Inl AlreadyAudited"
    and "trackProduct n c s trackerId sourceTrackerId productId productAmount
        = Inl AlreadyAudited"
    by (simp_all add: trackUpdate_def productsUpdate_def trackProduct_def notAudited_def)
next
  assume r: "removeAudit n c0 s trackerId = Inr s'"
  from removeAudit_Inr[OF r] show na: "td_auditor (trackerData s' trackerId) = 0" by simp
  {
    assume "trackUpdate_pre n c s' trackerId tokenIds tokenAmounts"
    from trackUpdate_succeeds[OF na this]
    show "succeeds (trackUpdate n c s' trackerId tokenIds tokenAmounts
                     fromDate thruDate description metadata)" .
  }
  {
    assume "productsUpdate_pre n c s' trackerId productIds productAmounts productNames
      productUnits productUnitAmounts"
    from productsUpdate_succeeds[OF na this]
    show "succeeds (productsUpdate n c s' trackerId productIds productAmounts productNames
                     productUnits productUnitAmounts)" .
  }
  {
    assume "trackProduct_pre n c s' trackerId sourceTrackerId productId productAmount"
    from trackProduct_succeeds[OF na this]
    show "succeeds (trackProduct n c s' trackerId sourceTrackerId productId productAmount)" .
  }
qed



lemma audit_gate_sufficient_example:
  "td_auditor (trackerData state7 2) \<noteq> 0 \<and>
   trackUpdate example_net (example_call 7) state7 2 [5] [10] 0 0 [] [] = Inl AlreadyAudited \<and>
   productsUpdate example_net (example_call 7) state7 2 [0] [5] [''gas''] [''m3''] [''5'']
     = Inl AlreadyAudited \<and>
   trackProduct example_net (example_call 5) state7 2 1 1 5 = Inl AlreadyAudited \<and>
   removeAudit example_net (example_call 7) state7 2 = Inr state6 \<and>
   td_auditor (trackerData state6 2) = 0 \<and>
   trackUpdate_pre example_net (example_call 7) state6 2 [5] [10] \<and>
   succeeds (trackUpdate example_net (example_call 7) state6 2 [5] [10] 0 0 [] []) \<and>
   productsUpdate_pre example_net (example_call 7) state6 2 [0] [5] [''gas''] [''m3''] [''5''] \<and>
   succeeds (productsUpdate example_net (example_call 7) state6 2 [0] [5]
               [''gas''] [''m3''] [''5'']) \<and>
   trackProduct_pre example_net (example_call 5) state6 2 1 1 5 \<and>
   succeeds (trackProduct example_net (example_call 5) state6 2 1 1 5)"
proof -
  have audited: "td_auditor (trackerData state7 2) \<noteq> 0"
    by (simp add: state_defs)
  have pre1: "trackUpdate_pre example_net (example_call 7) state6 2 [5] [10]"
    by (simp add: trackUpdate_pre_def tokens_fit_def available_of_def isAuditor_check_def
        MAX_UINT256_def state_defs sample_defs)
  have pre2: "productsUpdate_pre example_net (example_call 7) state6 2 [0] [5]
      [''gas''] [''m3''] [''5'']"
    by (simp add: productsUpdate_pre_def products_fit_def isAuditor_check_def
        MAX_UINT256_def state_defs sample_defs)
  have lin: "lineage_ok (trackerMappings state6 2)"
    by (simp add: lineage_ok_def tracked_ok_def indexed_ok_def state_defs sample_defs)
  have pre3: "trackProduct_pre example_net (example_call 5) state6 2 1 1 5"
    using lin
    by (simp add: trackProduct_pre_def isAuditor_check_def MAX_UINT256_def state_defs
        sample_defs)
  note a = audit_gate_sufficient [where n = example_net and c = "example_call 7" and ?c0.0 = "example_call 7"
      and s = state7 and s' = state6 and trackerId = 2 and tokenIds = "[5]"
      and tokenAmounts = "[10]" and fromDate = 0 and thruDate = 0 and description = "[]"
      and metadata = "[]" and productIds = "[0]" and productAmounts = "[5]"
      and productNames = "[''gas'']" and productUnits = "[''m3'']"
      and productUnitAmounts = "[''5'']" and sourceTrackerId = 1 and productId = 1
      and productAmount = 5]
  note b = audit_gate_sufficient [where n = example_net and c = "example_call 5" and ?c0.0 = "example_call 7"
      and s = state7 and s' = state6 and trackerId = 2 and tokenIds = "[5]"
      and tokenAmounts = "[10]" and fromDate = 0 and thruDate = 0 and description = "[]"
      and metadata = "[]" and productIds = "[0]" and productAmounts = "[5]"
      and productNames = "[''gas'']" and productUnits = "[''m3'']"
      and productUnitAmounts = "[''5'']" and sourceTrackerId = 1 and productId = 1
      and productAmount = 5]
  from a b audited removeAudit_reaches_state6 pre1 pre2 pre3 show ?thesis
    by blast
qed


text \<open>
  C2 says that after \<^verbatim>\<open>removeAudit\<close> the three operations succeed again when
  authorization, existence, array lengths and balances are in order. In \<open>state3\<close> tracker
  1 is audited and \<^verbatim>\<open>productsUpdate\<close> on it fails in \<^verbatim>\<open>notAudited\<close>; \<^verbatim>\<open>removeAudit\<close> by the
  auditor gives \<open>state2\<close>. There the auditor who registered product 1 of tracker 1 (amount
  50, the tracker's total) updates it to 80: the tracker exists, the caller is the
  authorized auditor and the auditor of the product, the five arrays have length 1, no sum
  overflows, and the call reverts, because the source subtracts the new amount from the
  total before adding it. Likewise \<^verbatim>\<open>trackUpdate\<close> with 30 of the 1000 available units of
  the type 2 token 2 reverts in \<^verbatim>\<open>_addTokenAmounts\<close>.
\<close>

theorem productsUpdate_after_removeAudit_reverts:
  "td_auditor (trackerData state3 1) \<noteq> 0 \<and>
   productsUpdate example_net (example_call 7) state3 1 [1] [80] [''oil''] [''bbl''] [''80'']
     = Inl AlreadyAudited \<and>
   removeAudit example_net (example_call 7) state3 1 = Inr state2 \<and>
   td_auditor (trackerData state2 1) = 0 \<and>
   trackerExists state2 1 = Inr () \<and>
   isAuditor_modifier example_net (example_call 7) state2 1 = Inr () \<and>
   pd_trackerId (productData state2 1) = 1 \<and>
   pd_auditor (productData state2 1) = msg_sender (example_call 7) \<and>
   td_totalProductAmounts (trackerData state2 1) = 50 \<and>
   productsUpdate example_net (example_call 7) state2 1 [1] [80] [''oil''] [''bbl''] [''80'']
     = Inl SubtractionOverflow \<and>
   net_isIndustry example_net (td_trackee (trackerData state2 1)) \<and>
   available_of example_net (example_call 7) 2 = 1000 \<and> lockedAmount state2 2 = 0 \<and>
   trackUpdate example_net (example_call 7) state2 1 [2] [30] 0 0 [] []
     = Inl SubtractionOverflow"
  by (simp add: model_defs sample_defs state_defs available_of_def)


end
